theory Spec2Isabelle
  imports Main
begin

section \<open>DatasourceUtil: processor dispatch and MySQL table introspection\<close>

text \<open>
  A shallow embedding of \<^verbatim>\<open>DatasourceUtil.java\<close>. A Java reference that may be
  \<^verbatim>\<open>null\<close> is an \<open>option\<close> (\<open>None\<close> is \<^verbatim>\<open>null\<close>); a method that may throw
  returns a sum whose \<open>Inl\<close> carries the throwable; the calls the class makes on the
  connection provider, on JDBC objects and on \<^verbatim>\<open>printStackTrace\<close> are recorded, in
  program order, in a list of events.
\<close>

subsection \<open>Throwables, events and outcomes\<close>

text \<open>
  \<open>SQLException\<close> stands for \<^verbatim>\<open>java.sql.SQLException\<close> and its subclasses, the
  throwables a \<^verbatim>\<open>catch (SQLException e)\<close> catches; \<open>RuntimeException\<close> for any other
  unchecked exception, \<open>Exception\<close> for any other checked one.
\<close>

datatype throwable =
    SQLException string
  | NullPointerException
  | PatternSyntaxException string
  | IllegalArgumentException string
  | RuntimeException string
  | Exception string

fun is_SQLException :: "throwable \<Rightarrow> bool" where
  "is_SQLException (SQLException m) = True"
| "is_SQLException x = False"

text \<open>
  \<^verbatim>\<open>DbType\<close> is declared outside the sources at hand. The nine constants the switch of
  \<^verbatim>\<open>getDatasourceProcessor\<close> names are constructors; \<open>OTHER n\<close> stands for any
  further constant \<open>n\<close> the enum may declare.
\<close>

datatype DbType =
    MYSQL | POSTGRESQL | HIVE | SPARK | CLICKHOUSE | ORACLE | SQLSERVER | DB2 | PRESTO
  | OTHER string

fun DbType_name :: "DbType \<Rightarrow> string" where
  "DbType_name MYSQL = ''MYSQL''"
| "DbType_name POSTGRESQL = ''POSTGRESQL''"
| "DbType_name HIVE = ''HIVE''"
| "DbType_name SPARK = ''SPARK''"
| "DbType_name CLICKHOUSE = ''CLICKHOUSE''"
| "DbType_name ORACLE = ''ORACLE''"
| "DbType_name SQLSERVER = ''SQLSERVER''"
| "DbType_name DB2 = ''DB2''"
| "DbType_name PRESTO = ''PRESTO''"
| "DbType_name (OTHER n) = n"

text \<open>
  \<^verbatim>\<open>MysqlConnectionParam\<close>, as far as \<^verbatim>\<open>getMySqlTables\<close> fills it: the three fields
  behind \<^verbatim>\<open>setJdbcUrl\<close>, \<^verbatim>\<open>setUser\<close> and \<^verbatim>\<open>setPassword\<close>.
\<close>

record MysqlConnectionParam =
  cp_jdbcUrl :: "string option"
  cp_user :: "string option"
  cp_password :: "string option"

datatype event =
    Call_getConnection DbType MysqlConnectionParam
  | Call_getMetaData
  | Call_getTables "string option" "string option" "string option" "string list option"
  | Call_next
  | Call_getString string
  | Close_rs
  | Close_stmt
  | Close_conn
  | PrintStackTrace throwable

type_synonym 'a outcome = "(throwable + 'a) \<times> event list"

subsection \<open>The JDBC objects and the connection provider\<close>

text \<open>
  The JDBC objects are given by what their methods answer. A method answers its value
  or a throwable: the \<^verbatim>\<open>SQLException\<close> its declaration announces, or an unchecked
  exception, which no declaration rules out. A \<^verbatim>\<open>close()\<close> answers \<open>Some x\<close> when it
  throws \<open>x\<close> and \<open>None\<close> when it returns.

  A result set has the rows that \<^verbatim>\<open>next()\<close> steps through, each given by what
  \<^verbatim>\<open>getString("TABLE_NAME")\<close> answers on it: a throwable, \<^verbatim>\<open>null\<close>, or a name.
  \<open>rs_failure\<close> is \<open>Some x\<close> when the call of \<^verbatim>\<open>next()\<close> after the last of these rows
  throws \<open>x\<close>, and \<open>None\<close> when it returns false.
\<close>

record ResultSet =
  rs_rows :: "(throwable + string option) list"
  rs_failure :: "throwable option"
  rs_close :: "throwable option"

record Statement =
  stmt_close :: "throwable option"

record DatabaseMetaData =
  dmd_getTables ::
    "string option \<Rightarrow> string option \<Rightarrow> string option \<Rightarrow> string list option \<Rightarrow> throwable + ResultSet"

record Connection =
  conn_getMetaData :: "throwable + DatabaseMetaData"
  conn_close :: "throwable option"

subsection \<open>java.util.regex and String.toUpperCase\<close>

text \<open>
  \<^verbatim>\<open>Pattern.matches(regex, input)\<close> compiles \<open>regex\<close> and asks whether the whole of
  \<open>input\<close> matches it. The concrete syntax of patterns belongs to the JDK: compiling is
  a parameter (\<open>Pattern_compile\<close> below) that answers a syntax error or a compiled
  pattern. Compiled patterns are regular expressions, and \<open>Matcher_matches\<close> decides
  whether the entire input is in the language, by derivatives.
\<close>

datatype regex =
    Nothing
  | EmptyStr
  | Chr char
  | AnyChr
  | Cat regex regex
  | Or regex regex
  | Rep regex

fun nullable :: "regex \<Rightarrow> bool" where
  "nullable Nothing = False"
| "nullable EmptyStr = True"
| "nullable (Chr c) = False"
| "nullable AnyChr = False"
| "nullable (Cat a b) = (nullable a \<and> nullable b)"
| "nullable (Or a b) = (nullable a \<or> nullable b)"
| "nullable (Rep a) = True"

fun deriv :: "char \<Rightarrow> regex \<Rightarrow> regex" where
  "deriv x Nothing = Nothing"
| "deriv x EmptyStr = Nothing"
| "deriv x (Chr c) = (if x = c then EmptyStr else Nothing)"
| "deriv x AnyChr = EmptyStr"
| "deriv x (Cat a b) =
     (if nullable a then Or (Cat (deriv x a) b) (deriv x b) else Cat (deriv x a) b)"
| "deriv x (Or a b) = Or (deriv x a) (deriv x b)"
| "deriv x (Rep a) = Cat (deriv x a) (Rep a)"

fun Matcher_matches :: "regex \<Rightarrow> string \<Rightarrow> bool" where
  "Matcher_matches r [] = nullable r"
| "Matcher_matches r (x # s) = Matcher_matches (deriv x r) s"

text \<open>The pattern that matches exactly the given text.\<close>

fun literal :: "string \<Rightarrow> regex" where
  "literal [] = EmptyStr"
| "literal (c # cs) = Cat (Chr c) (literal cs)"

text \<open>
  What a compiled pattern denotes: the set of the texts it matches as a whole.
  \<open>lang_concat A B\<close> holds a text of \<open>A\<close> followed by a text of \<open>B\<close>, \<open>lang_star A\<close>
  any number of texts of \<open>A\<close> in a row.
\<close>

definition lang_concat :: "string set \<Rightarrow> string set \<Rightarrow> string set" where
  "lang_concat A B = {u @ v | u v. u \<in> A \<and> v \<in> B}"

inductive_set lang_star :: "string set \<Rightarrow> string set" for A :: "string set" where
  no_round: "[] \<in> lang_star A"
| one_more_round: "u \<in> A \<Longrightarrow> v \<in> lang_star A \<Longrightarrow> u @ v \<in> lang_star A"

fun lang :: "regex \<Rightarrow> string set" where
  "lang Nothing = {}"
| "lang EmptyStr = {[]}"
| "lang (Chr c) = {[c]}"
| "lang AnyChr = {[c] | c. True}"
| "lang (Cat a b) = lang_concat (lang a) (lang b)"
| "lang (Or a b) = lang a \<union> lang b"
| "lang (Rep a) = lang_star (lang a)"

text \<open>
  The environment of the class: the connection provider
  (\<^verbatim>\<open>DataSourceClientProvider.getInstance().getConnection\<close>, which may throw or answer
  \<^verbatim>\<open>null\<close>), the pattern compiler, and \<^verbatim>\<open>String.toUpperCase()\<close>, whose result
  depends on the default locale of the JVM.
\<close>

record env =
  provider_getConnection :: "DbType \<Rightarrow> MysqlConnectionParam \<Rightarrow> throwable + Connection option"
  Pattern_compile :: "string \<Rightarrow> string + regex"
  String_toUpperCase :: "string \<Rightarrow> string"

text \<open>
  \<^verbatim>\<open>Pattern.matches\<close>: \<^verbatim>\<open>Pattern.compile(regex)\<close> fails on \<^verbatim>\<open>null\<close> and on a
  syntax error, \<^verbatim>\<open>matcher(input)\<close> fails on a \<^verbatim>\<open>null\<close> input, and \<^verbatim>\<open>matches()\<close>
  answers.
\<close>

definition Pattern_matches :: "env \<Rightarrow> string option \<Rightarrow> string option \<Rightarrow> throwable + bool" where
  "Pattern_matches e regex input =
     (case regex of
        None \<Rightarrow> Inl NullPointerException
      | Some p \<Rightarrow>
          (case Pattern_compile e p of
             Inl d \<Rightarrow> Inl (PatternSyntaxException d)
           | Inr r \<Rightarrow>
               (case input of
                  None \<Rightarrow> Inl NullPointerException
                | Some s \<Rightarrow> Inr (Matcher_matches r s))))"

subsection \<open>Statements, try/catch and the release helper\<close>

definition skip :: "unit outcome" where
  "skip = (Inr (), [])"

text \<open>\<open>then_do a b\<close> is \<^verbatim>\<open>a; b\<close>: \<open>b\<close> runs only when \<open>a\<close> completes normally.\<close>

definition then_do :: "unit outcome \<Rightarrow> 'a outcome \<Rightarrow> 'a outcome" where
  "then_do a b =
     (case a of
        (Inl e, t) \<Rightarrow> (Inl e, t)
      | (Inr u, t) \<Rightarrow> (case b of (r, t') \<Rightarrow> (r, t @ t')))"

text \<open>\<^verbatim>\<open>try { a } catch (SQLException e) { h(e) }\<close>: no other throwable is caught.\<close>

definition catch_SQLException :: "unit outcome \<Rightarrow> (throwable \<Rightarrow> unit outcome) \<Rightarrow> unit outcome" where
  "catch_SQLException a h =
     (case a of
        (Inl x, t) \<Rightarrow>
          (if is_SQLException x then (case h x of (r, t') \<Rightarrow> (r, t @ t')) else (Inl x, t))
      | (Inr u, t) \<Rightarrow> (Inr u, t))"

definition printStackTrace :: "throwable \<Rightarrow> unit outcome" where
  "printStackTrace e = (Inr (), [PrintStackTrace e])"

text \<open>A call of \<^verbatim>\<open>close()\<close> on a JDBC object: the event, and what the object answers.\<close>

definition call_close :: "event \<Rightarrow> throwable option \<Rightarrow> unit outcome" where
  "call_close ev answer =
     (case answer of
        None \<Rightarrow> (Inr (), [ev])
      | Some x \<Rightarrow> (Inl x, [ev]))"

definition close :: "Connection option \<Rightarrow> Statement option \<Rightarrow> ResultSet option \<Rightarrow> unit outcome" where
  "close conn stmt rs =
     then_do
       (case rs of
          None \<Rightarrow> skip
        | Some r \<Rightarrow> catch_SQLException (call_close Close_rs (rs_close r)) printStackTrace)
    (then_do
       (case stmt of
          None \<Rightarrow> skip
        | Some s \<Rightarrow> catch_SQLException (call_close Close_stmt (stmt_close s)) printStackTrace)
       (case conn of
          None \<Rightarrow> skip
        | Some c \<Rightarrow> catch_SQLException (call_close Close_conn (conn_close c)) printStackTrace))"

subsection \<open>getMySqlTables\<close>

text \<open>
  The loop \<^verbatim>\<open>while (rs.next()) { if (Pattern.matches(tablePattern,
  rs.getString("TABLE_NAME"))) tables.add(rs.getString("TABLE_NAME")); }\<close> over the rows
  still to come, with the list \<open>tables\<close> built so far (a \<^verbatim>\<open>List<String>\<close>, whose
  elements are references). The second \<^verbatim>\<open>getString\<close> on a row answers what the first
  one did.
\<close>

fun scan ::
  "env \<Rightarrow> string option \<Rightarrow> (throwable + string option) list \<Rightarrow> throwable option
     \<Rightarrow> string option list \<Rightarrow> string option list outcome" where
  "scan e tablePattern [] failure tables =
     (case failure of
        None \<Rightarrow> (Inr tables, [Call_next])
      | Some x \<Rightarrow> (Inl x, [Call_next]))"
| "scan e tablePattern (answer # rest) failure tables =
     (case answer of
        Inl x \<Rightarrow> (Inl x, [Call_next, Call_getString ''TABLE_NAME''])
      | Inr name \<Rightarrow>
          (case Pattern_matches e tablePattern name of
             Inl x \<Rightarrow> (Inl x, [Call_next, Call_getString ''TABLE_NAME''])
           | Inr matched \<Rightarrow>
               (if matched
                then (case scan e tablePattern rest failure (tables @ [name]) of
                        (r, t) \<Rightarrow>
                          (r, [Call_next, Call_getString ''TABLE_NAME'',
                               Call_getString ''TABLE_NAME''] @ t))
                else (case scan e tablePattern rest failure tables of
                        (r, t) \<Rightarrow> (r, [Call_next, Call_getString ''TABLE_NAME''] @ t)))))"

text \<open>
  The \<^verbatim>\<open>try\<close> block. It answers the value the local variable \<^verbatim>\<open>rs\<close> has when the
  block is left (it stays \<^verbatim>\<open>null\<close> until \<^verbatim>\<open>getTables\<close> has returned), how the block
  is left, and its events. A \<^verbatim>\<open>null\<close> connection fails at \<^verbatim>\<open>conn.getMetaData()\<close>,
  a \<^verbatim>\<open>null\<close> user at \<^verbatim>\<open>user.toUpperCase()\<close>, before \<^verbatim>\<open>getTables\<close> is called.
\<close>

definition try_block ::
  "env \<Rightarrow> Connection option \<Rightarrow> string option \<Rightarrow> string option \<Rightarrow> string option
     \<Rightarrow> (ResultSet option \<times> (throwable + string option list)) \<times> event list" where
  "try_block e conn database tablePattern user =
     (case conn of
        None \<Rightarrow> ((None, Inl NullPointerException), [])
      | Some c \<Rightarrow>
          (case conn_getMetaData c of
             Inl x \<Rightarrow> ((None, Inl x), [Call_getMetaData])
           | Inr dmd \<Rightarrow>
               (case user of
                  None \<Rightarrow> ((None, Inl NullPointerException), [Call_getMetaData])
                | Some u \<Rightarrow>
                    (case dmd_getTables dmd database (Some (String_toUpperCase e u)) None
                            (Some [''TABLE'']) of
                       Inl x \<Rightarrow>
                         ((None, Inl x),
                          [Call_getMetaData,
                           Call_getTables database (Some (String_toUpperCase e u)) None
                             (Some [''TABLE''])])
                     | Inr r \<Rightarrow>
                         (case scan e tablePattern (rs_rows r) (rs_failure r) [] of
                            (res, t) \<Rightarrow>
                              ((Some r, res),
                               [Call_getMetaData,
                                Call_getTables database (Some (String_toUpperCase e u)) None
                                  (Some [''TABLE''])] @ t))))))"

text \<open>
  \<^verbatim>\<open>try { ... } finally { close(conn, null, rs); } return tables;\<close> after the
  connection has been asked for. A throwable of the provider leaves the method before
  the \<^verbatim>\<open>try\<close>; a throwable that leaves the \<^verbatim>\<open>finally\<close> block replaces the outcome of
  the \<^verbatim>\<open>try\<close> block.
\<close>

definition getMySqlTables ::
  "env \<Rightarrow> string option \<Rightarrow> string option \<Rightarrow> string option \<Rightarrow> string option \<Rightarrow> string option
     \<Rightarrow> string option list outcome" where
  "getMySqlTables e url database tablePattern user password =
     (let connectionParam = \<lparr>cp_jdbcUrl = url, cp_user = user, cp_password = password\<rparr> in
      case provider_getConnection e MYSQL connectionParam of
        Inl x \<Rightarrow> (Inl x, [Call_getConnection MYSQL connectionParam])
      | Inr conn \<Rightarrow>
          (case try_block e conn database tablePattern user of
             ((rs, res), t) \<Rightarrow>
               (case close conn None rs of
                  (Inl x, t') \<Rightarrow> (Inl x, Call_getConnection MYSQL connectionParam # t @ t')
                | (Inr u, t') \<Rightarrow> (res, Call_getConnection MYSQL connectionParam # t @ t'))))"

subsection \<open>The processors and their dispatch\<close>

text \<open>
  The classes of the nine processors, and the state of the class \<^verbatim>\<open>DatasourceUtil\<close>:
  the objects allocated so far (a reference is the position of its object), and the
  nine \<^verbatim>\<open>static final\<close> fields, each a reference.
\<close>

datatype processor_class =
    MysqlDatasourceProcessor
  | PostgreSqlDatasourceProcessor
  | HiveDatasourceProcessor
  | SparkDatasourceProcessor
  | ClickHouseDatasourceProcessor
  | OracleDatasourceProcessor
  | SqlServerDatasourceProcessor
  | Db2DatasourceProcessor
  | PrestoDatasourceProcessor

record class_state =
  heap :: "processor_class list"
  mysqlProcessor :: nat
  postgreSqlProcessor :: nat
  hiveProcessor :: nat
  sparkProcessor :: nat
  clickhouseProcessor :: nat
  oracleProcessor :: nat
  sqlServerProcessor :: nat
  db2PROCESSOR :: nat
  prestoPROCESSOR :: nat

text \<open>\<^verbatim>\<open>new C()\<close>: a reference to a fresh object of class \<open>C\<close>, and the heap with it.\<close>

definition new_object :: "processor_class \<Rightarrow> processor_class list \<Rightarrow> nat \<times> processor_class list" where
  "new_object c h = (length h, h @ [c])"

text \<open>The static initialiser: the nine fields in the order of their declarations.\<close>

definition clinit :: "processor_class list \<Rightarrow> class_state" where
  "clinit h0 =
     (let (r1, h1) = new_object MysqlDatasourceProcessor h0;
          (r2, h2) = new_object PostgreSqlDatasourceProcessor h1;
          (r3, h3) = new_object HiveDatasourceProcessor h2;
          (r4, h4) = new_object SparkDatasourceProcessor h3;
          (r5, h5) = new_object ClickHouseDatasourceProcessor h4;
          (r6, h6) = new_object OracleDatasourceProcessor h5;
          (r7, h7) = new_object SqlServerDatasourceProcessor h6;
          (r8, h8) = new_object Db2DatasourceProcessor h7;
          (r9, h9) = new_object PrestoDatasourceProcessor h8
      in \<lparr>heap = h9, mysqlProcessor = r1, postgreSqlProcessor = r2, hiveProcessor = r3,
          sparkProcessor = r4, clickhouseProcessor = r5, oracleProcessor = r6,
          sqlServerProcessor = r7, db2PROCESSOR = r8, prestoPROCESSOR = r9\<rparr>)"

text \<open>
  The switch reads a field and returns it; it allocates nothing and assigns nothing, so
  the state it leaves is the state it found. A \<^verbatim>\<open>switch\<close> on a \<^verbatim>\<open>null\<close> enum
  reference throws \<^verbatim>\<open>NullPointerException\<close>.
\<close>

fun getDatasourceProcessor :: "class_state \<Rightarrow> DbType option \<Rightarrow> (throwable + nat) \<times> class_state" where
  "getDatasourceProcessor s None = (Inl NullPointerException, s)"
| "getDatasourceProcessor s (Some MYSQL) = (Inr (mysqlProcessor s), s)"
| "getDatasourceProcessor s (Some POSTGRESQL) = (Inr (postgreSqlProcessor s), s)"
| "getDatasourceProcessor s (Some HIVE) = (Inr (hiveProcessor s), s)"
| "getDatasourceProcessor s (Some SPARK) = (Inr (sparkProcessor s), s)"
| "getDatasourceProcessor s (Some CLICKHOUSE) = (Inr (clickhouseProcessor s), s)"
| "getDatasourceProcessor s (Some ORACLE) = (Inr (oracleProcessor s), s)"
| "getDatasourceProcessor s (Some SQLSERVER) = (Inr (sqlServerProcessor s), s)"
| "getDatasourceProcessor s (Some DB2) = (Inr (db2PROCESSOR s), s)"
| "getDatasourceProcessor s (Some PRESTO) = (Inr (prestoPROCESSOR s), s)"
| "getDatasourceProcessor s (Some (OTHER n)) =
     (Inl (IllegalArgumentException (''datasource type illegal:'' @ DbType_name (OTHER n))), s)"

definition supported :: "DbType set" where
  "supported = {MYSQL, POSTGRESQL, HIVE, SPARK, CLICKHOUSE, ORACLE, SQLSERVER, DB2, PRESTO}"

text \<open>The processor class that bears the name of a kind.\<close>

fun processor_class_of :: "DbType \<Rightarrow> processor_class option" where
  "processor_class_of MYSQL = Some MysqlDatasourceProcessor"
| "processor_class_of POSTGRESQL = Some PostgreSqlDatasourceProcessor"
| "processor_class_of HIVE = Some HiveDatasourceProcessor"
| "processor_class_of SPARK = Some SparkDatasourceProcessor"
| "processor_class_of CLICKHOUSE = Some ClickHouseDatasourceProcessor"
| "processor_class_of ORACLE = Some OracleDatasourceProcessor"
| "processor_class_of SQLSERVER = Some SqlServerDatasourceProcessor"
| "processor_class_of DB2 = Some Db2DatasourceProcessor"
| "processor_class_of PRESTO = Some PrestoDatasourceProcessor"
| "processor_class_of (OTHER n) = None"

subsection \<open>Reading a list of events\<close>

text \<open>The release calls among the events.\<close>

fun is_release :: "event \<Rightarrow> bool" where
  "is_release Close_rs = True"
| "is_release Close_stmt = True"
| "is_release Close_conn = True"
| "is_release ev = False"

text \<open>
  A guarded release completes when its handle is \<^verbatim>\<open>null\<close>, or the \<^verbatim>\<open>close()\<close> of
  its handle returns or throws an \<^verbatim>\<open>SQLException\<close>.
\<close>

definition completes :: "throwable option option \<Rightarrow> bool" where
  "completes handle =
     (case handle of
        None \<Rightarrow> True
      | Some None \<Rightarrow> True
      | Some (Some x) \<Rightarrow> is_SQLException x)"

text \<open>
  What one guarded release leaves in the events, given its handle: nothing for a
  \<^verbatim>\<open>null\<close> handle, the call for a handle whose \<^verbatim>\<open>close()\<close> returns, the call and the
  printed stack trace for one whose \<^verbatim>\<open>close()\<close> throws an \<^verbatim>\<open>SQLException\<close>, the call
  alone for one whose \<^verbatim>\<open>close()\<close> throws anything else.
\<close>

definition release_events :: "event \<Rightarrow> throwable option option \<Rightarrow> event list" where
  "release_events ev handle =
     (case handle of
        None \<Rightarrow> []
      | Some None \<Rightarrow> [ev]
      | Some (Some x) \<Rightarrow> (if is_SQLException x then [ev, PrintStackTrace x] else [ev]))"

text \<open>The arguments of the metadata queries among the events, in order.\<close>

fun queries ::
  "event list \<Rightarrow> (string option \<times> string option \<times> string option \<times> string list option) list" where
  "queries [] = []"
| "queries (Call_getTables catalog schemaPattern tableNamePattern types # t) =
     (catalog, schemaPattern, tableNamePattern, types) # queries t"
| "queries (ev # t) = queries t"

text \<open>The requests to the connection provider among the events, in order.\<close>

fun connection_requests :: "event list \<Rightarrow> (DbType \<times> MysqlConnectionParam) list" where
  "connection_requests [] = []"
| "connection_requests (Call_getConnection dbType param # t) = (dbType, param) # connection_requests t"
| "connection_requests (ev # t) = connection_requests t"

subsection \<open>Sample environments\<close>

text \<open>
  A pattern compiler that knows two patterns: \<^verbatim>\<open>^orders.*$\<close> (under a whole-input
  match the anchors add nothing to \<^verbatim>\<open>orders.*\<close>) and \<^verbatim>\<open>orders\<close>.
\<close>

definition orders_pattern :: "string \<Rightarrow> string + regex" where
  "orders_pattern p =
     (if p = ''^orders.*$'' then Inr (Cat (literal ''orders'') (Rep AnyChr))
      else if p = ''orders'' then Inr (literal ''orders'')
      else Inl ''unsupported pattern'')"

text \<open>
  \<^verbatim>\<open>toUpperCase\<close> on ASCII text under a locale with the common case rules, and under
  a Turkish locale, where the upper case of \<^verbatim>\<open>i\<close> is the dotted capital I (U+0130, the
  bytes C4 B0 in UTF-8).
\<close>

definition ascii_toUpperCase :: "string \<Rightarrow> string" where
  "ascii_toUpperCase s =
     map (\<lambda>c. case map_of (zip ''abcdefghijklmnopqrstuvwxyz'' ''ABCDEFGHIJKLMNOPQRSTUVWXYZ'') c of
                 None \<Rightarrow> c
               | Some u \<Rightarrow> u) s"


text \<open>
  Metadata that gives its answer to one query only: catalog \<^verbatim>\<open>reporting\<close>, schema
  \<^verbatim>\<open>ALICE\<close>, no table name pattern, type \<^verbatim>\<open>TABLE\<close>.
\<close>

definition alice_metadata :: "throwable + ResultSet \<Rightarrow> DatabaseMetaData" where
  "alice_metadata answer =
     \<lparr>dmd_getTables = (\<lambda>catalog schemaPattern tableNamePattern types.
        if catalog = Some ''reporting'' \<and> schemaPattern = Some ''ALICE''
           \<and> tableNamePattern = None \<and> types = Some [''TABLE'']
        then answer else Inl (SQLException ''unexpected metadata query''))\<rparr>"

text \<open>A provider that hands out the given connection for \<^verbatim>\<open>MYSQL\<close> and throws otherwise.\<close>

definition mysql_only :: "Connection \<Rightarrow> env" where
  "mysql_only c =
     \<lparr>provider_getConnection = (\<lambda>dbType param.
        if dbType = MYSQL then Inr (Some c) else Inl (Exception ''no client for this type'')),
      Pattern_compile = orders_pattern,
      String_toUpperCase = ascii_toUpperCase\<rparr>"

text \<open>
  A cursor that breaks after two rows, on a connection whose releases throw
  \<^verbatim>\<open>SQLException\<close> too.
\<close>

definition broken_rs :: ResultSet where
  "broken_rs =
     \<lparr>rs_rows = [Inr (Some ''orders''), Inr (Some ''customer_orders'')],
      rs_failure = Some (SQLException ''Communications link failure''),
      rs_close = Some (SQLException ''cursor gone'')\<rparr>"

definition broken_conn :: Connection where
  "broken_conn =
     \<lparr>conn_getMetaData = Inr (alice_metadata (Inr broken_rs)),
      conn_close = Some (SQLException ''socket closed'')\<rparr>"

text \<open>The same cursor, whose release throws an unchecked exception.\<close>

definition crashing_rs :: ResultSet where
  "crashing_rs = broken_rs\<lparr>rs_close := Some (RuntimeException ''driver bug'')\<rparr>"

definition crashing_conn :: Connection where
  "crashing_conn =
     \<lparr>conn_getMetaData = Inr (alice_metadata (Inr crashing_rs)), conn_close = None\<rparr>"

text \<open>A healthy cursor over three tables; only the release of the cursor throws.\<close>

definition orders_rs :: ResultSet where
  "orders_rs =
     \<lparr>rs_rows = [Inr (Some ''orders''), Inr (Some ''customer_orders''), Inr (Some ''orders_archive'')],
      rs_failure = None,
      rs_close = Some (SQLException ''cursor gone'')\<rparr>"

definition orders_conn :: Connection where
  "orders_conn =
     \<lparr>conn_getMetaData = Inr (alice_metadata (Inr orders_rs)), conn_close = None\<rparr>"

text \<open>A connection whose metadata query is refused.\<close>

definition denied_conn :: Connection where
  "denied_conn =
     \<lparr>conn_getMetaData = Inr (alice_metadata (Inl (SQLException ''Access denied''))),
      conn_close = None\<rparr>"

text \<open>A statement whose release throws.\<close>

definition failing_stmt :: Statement where
  "failing_stmt = \<lparr>stmt_close = Some (SQLException ''statement gone'')\<rparr>"

text \<open>The healthy cursor, whose release throws an unchecked exception.\<close>

definition crashing_orders_rs :: ResultSet where
  "crashing_orders_rs = orders_rs\<lparr>rs_close := Some (RuntimeException ''driver bug'')\<rparr>"

definition crashing_orders_conn :: Connection where
  "crashing_orders_conn =
     \<lparr>conn_getMetaData = Inr (alice_metadata (Inr crashing_orders_rs)), conn_close = None\<rparr>"




subsection \<open>The unique id of a datasource\<close>

text \<open>Modelled from the spec: the connection descriptor that \<^verbatim>\<open>getDatasourceUniqueId\<close>
  receives (the implementations of \<^verbatim>\<open>ConnectionParam\<close> are not among the sources).
  Section 3 of the specification gives it the normalized URL, the user, the password
  and extra properties.
\<close>

record ConnectionDescriptor =
  cd_url :: string
  cd_user :: string
  cd_password :: string
  cd_properties :: "(string \<times> string) list"

text \<open>Modelled from the spec: \<^verbatim>\<open>getDatasourceUniqueId\<close> of a processor (the
  \<^verbatim>\<open>DatasourceProcessor\<close> classes are not among the sources). Section 4.2 of the
  specification: ``concatenation/hash of engine kind + normalized URL + user, excluding
  password''. The three texts are concatenated in this order and passed through
  \<open>digest\<close>: the identity for the plain concatenation, a hash function otherwise. The
  same for every processor.
\<close>

definition processor_getDatasourceUniqueId ::
  "(string \<Rightarrow> string) \<Rightarrow> nat \<Rightarrow> ConnectionDescriptor \<Rightarrow> DbType \<Rightarrow> string" where
  "processor_getDatasourceUniqueId digest proc connectionParam dbType =
     digest (DbType_name dbType @ cd_url connectionParam @ cd_user connectionParam)"

text \<open>
  \<^verbatim>\<open>DatasourceUtil.getDatasourceUniqueId\<close>: the processor of the kind is looked up and
  asked. A \<^verbatim>\<open>null\<close> or unsupported kind fails in the lookup.
\<close>

definition getDatasourceUniqueId ::
  "class_state \<Rightarrow> (string \<Rightarrow> string) \<Rightarrow> ConnectionDescriptor \<Rightarrow> DbType option
     \<Rightarrow> (throwable + string) \<times> class_state" where
  "getDatasourceUniqueId s digest connectionParam dbType =
     (case getDatasourceProcessor s dbType of
        (Inl x, s') \<Rightarrow> (Inl x, s')
      | (Inr proc, s') \<Rightarrow>
          (case dbType of
             None \<Rightarrow> (Inl NullPointerException, s')
           | Some d \<Rightarrow> (Inr (processor_getDatasourceUniqueId digest proc connectionParam d), s')))"

text \<open>A descriptor for the samples.\<close>

definition alice_descriptor :: ConnectionDescriptor where
  "alice_descriptor =
     \<lparr>cd_url = ''jdbc:mysql://host:3306/reporting'', cd_user = ''alice'',
      cd_password = ''secret'', cd_properties = []\<rparr>"

section \<open>Properties\<close>

subsection \<open>The release helper and the shape of a run\<close>

lemma guarded_close:
  "catch_SQLException (call_close ev a) printStackTrace =
     ((case a of None \<Rightarrow> Inr () | Some x \<Rightarrow> if is_SQLException x then Inr () else Inl x),
      release_events ev (Some a))"
  by (cases a)
     (simp_all add: catch_SQLException_def call_close_def printStackTrace_def release_events_def)

lemma guarded_completes:
  "completes (Some a) \<Longrightarrow>
     catch_SQLException (call_close ev a) printStackTrace = (Inr (), release_events ev (Some a))"
  by (cases a) (simp_all add: guarded_close completes_def)

lemma guarded_rs:
  "completes (map_option rs_close rs) \<Longrightarrow>
     (case rs of None \<Rightarrow> skip
      | Some r \<Rightarrow> catch_SQLException (call_close Close_rs (rs_close r)) printStackTrace)
     = (Inr (), release_events Close_rs (map_option rs_close rs))"
  by (cases rs) (simp_all add: skip_def guarded_completes release_events_def)

lemma guarded_stmt:
  "completes (map_option stmt_close stmt) \<Longrightarrow>
     (case stmt of None \<Rightarrow> skip
      | Some s \<Rightarrow> catch_SQLException (call_close Close_stmt (stmt_close s)) printStackTrace)
     = (Inr (), release_events Close_stmt (map_option stmt_close stmt))"
  by (cases stmt) (simp_all add: skip_def guarded_completes release_events_def)

lemma guarded_conn:
  "completes (map_option conn_close conn) \<Longrightarrow>
     (case conn of None \<Rightarrow> skip
      | Some c \<Rightarrow> catch_SQLException (call_close Close_conn (conn_close c)) printStackTrace)
     = (Inr (), release_events Close_conn (map_option conn_close conn))"
  by (cases conn) (simp_all add: skip_def guarded_completes release_events_def)

lemma close_events:
  assumes "completes (map_option rs_close rs)"
      and "completes (map_option stmt_close stmt)"
      and "completes (map_option conn_close conn)"
  shows "close conn stmt rs =
     (Inr (), release_events Close_rs (map_option rs_close rs)
              @ release_events Close_stmt (map_option stmt_close stmt)
              @ release_events Close_conn (map_option conn_close conn))"
  by (simp add: close_def guarded_rs[OF assms(1)] guarded_stmt[OF assms(2)]
        guarded_conn[OF assms(3)] then_do_def)

lemma close_rs_escapes:
  assumes "rs_close r = Some x" and "\<not> is_SQLException x"
  shows "close conn stmt (Some r) = (Inl x, [Close_rs])"
  using assms
  by (simp add: close_def then_do_def guarded_close release_events_def)

lemma close_stmt_escapes:
  assumes "completes (map_option rs_close rs)"
      and "stmt_close s = Some x" and "\<not> is_SQLException x"
  shows "close conn (Some s) rs =
           (Inl x, release_events Close_rs (map_option rs_close rs) @ [Close_stmt])"
  using assms(2,3)
  by (simp add: close_def guarded_rs[OF assms(1)] then_do_def guarded_close release_events_def)

lemma close_conn_escapes:
  assumes "completes (map_option rs_close rs)"
      and "completes (map_option stmt_close stmt)"
      and "conn_close c = Some x" and "\<not> is_SQLException x"
  shows "close (Some c) stmt rs =
           (Inl x, release_events Close_rs (map_option rs_close rs)
                   @ release_events Close_stmt (map_option stmt_close stmt) @ [Close_conn])"
  using assms(3,4)
  by (simp add: close_def guarded_rs[OF assms(1)] guarded_stmt[OF assms(2)] then_do_def
        guarded_close release_events_def)

lemma filter_release_events:
  "is_release ev \<Longrightarrow>
     filter is_release (release_events ev h) = (case h of None \<Rightarrow> [] | Some a \<Rightarrow> [ev])"
  by (cases h; cases "the h") (simp_all add: release_events_def)

lemma release_in_release_events:
  "is_release x \<Longrightarrow> (x \<in> set (release_events ev h)) = (h \<noteq> None \<and> x = ev)"
  by (cases h; cases "the h") (auto simp: release_events_def)

lemma close_conn_only:
  "close (Some c) None None =
     ((case conn_close c of None \<Rightarrow> Inr () | Some x \<Rightarrow> if is_SQLException x then Inr () else Inl x),
      release_events Close_conn (Some (conn_close c)))"
  by (simp add: close_def then_do_def skip_def guarded_close)

lemma scan_no_release: "filter is_release (snd (scan e p rows failure tables)) = []"
  by (induction rows arbitrary: tables)
     (simp_all add: case_prod_beta split: option.splits sum.splits)

lemma scan_result:
  assumes "Pattern_compile e p = Inr rx"
  shows "fst (scan e (Some p) (map (\<lambda>n. Inr (Some n)) names) failure tables) =
           (case failure of
              None \<Rightarrow> Inr (tables @ map Some (filter (Matcher_matches rx) names))
            | Some x \<Rightarrow> Inl x)"
  using assms
  by (induction names arbitrary: tables)
     (simp_all add: Pattern_matches_def case_prod_beta split: option.splits)

lemma try_block_no_release:
  "filter is_release (snd (try_block e conn database tablePattern user)) = []"
  by (simp add: try_block_def case_prod_beta scan_no_release split: option.splits sum.splits)

text \<open>
  Once the provider has answered, a run is the request, the \<^verbatim>\<open>try\<close> block and the
  release helper; it ends the way the \<^verbatim>\<open>try\<close> block ended unless a throwable leaves
  the release helper.
\<close>

lemma getMySqlTables_acquired:
  assumes "provider_getConnection e MYSQL
             \<lparr>cp_jdbcUrl = url, cp_user = user, cp_password = password\<rparr> = Inr conn"
  shows "getMySqlTables e url database tablePattern user password =
           ((case fst (close conn None (fst (fst (try_block e conn database tablePattern user)))) of
               Inl x \<Rightarrow> Inl x
             | Inr u \<Rightarrow> snd (fst (try_block e conn database tablePattern user))),
            Call_getConnection MYSQL \<lparr>cp_jdbcUrl = url, cp_user = user, cp_password = password\<rparr>
              # snd (try_block e conn database tablePattern user)
              @ snd (close conn None (fst (fst (try_block e conn database tablePattern user)))))"
  using assms
  by (simp add: getMySqlTables_def case_prod_beta split: sum.splits)

subsection \<open>C1: a failing metadata scan and the release hooks\<close>

text \<open>
  C1, as the code has it. Let a connection be obtained, let the \<^verbatim>\<open>try\<close> block (the
  metadata query and the scan of its rows) end with a throwable \<open>x\<close>, and let each
  \<^verbatim>\<open>close()\<close> that the release helper calls return or throw an \<^verbatim>\<open>SQLException\<close>.
  Then the caller observes \<open>x\<close>, not a failure of a release; the events of the run are
  the request for the connection, those of the \<^verbatim>\<open>try\<close> block and then those of the
  release helper, so that every release precedes the return; and the release calls are,
  in order, the cursor's (once, when the query had returned a cursor; not at all when it
  had not) and the connection's (once). No statement is ever created, and no statement
  release is called. A cursor was returned whenever \<^verbatim>\<open>getTables\<close> answered one; when
  that cursor then breaks during the scan of rows that carry names (under a pattern that
  compiles), \<open>x\<close> is what the cursor threw; when \<^verbatim>\<open>getTables\<close> itself throws, there is
  no cursor and \<open>x\<close> is what it threw.
\<close>

theorem getMySqlTables_query_error_released:
  assumes "provider_getConnection e MYSQL
             \<lparr>cp_jdbcUrl = url, cp_user = user, cp_password = password\<rparr> = Inr (Some c)"
      and "try_block e (Some c) database tablePattern user = ((rs, Inl x), t)"
      and "completes (map_option rs_close rs)"
      and "completes (Some (conn_close c))"
  shows "getMySqlTables e url database tablePattern user password =
           (Inl x,
            Call_getConnection MYSQL \<lparr>cp_jdbcUrl = url, cp_user = user, cp_password = password\<rparr>
              # t @ snd (close (Some c) None rs))
         \<and> filter is_release (snd (getMySqlTables e url database tablePattern user password)) =
             (case rs of None \<Rightarrow> [Close_conn] | Some r \<Rightarrow> [Close_rs, Close_conn])
         \<and> (conn_getMetaData c = Inr dmd \<and> user = Some u
              \<and> dmd_getTables dmd database (Some (String_toUpperCase e u)) None (Some [''TABLE''])
                  = Inr r \<longrightarrow>
              rs = Some r)
         \<and> (conn_getMetaData c = Inr dmd \<and> user = Some u
              \<and> dmd_getTables dmd database (Some (String_toUpperCase e u)) None (Some [''TABLE''])
                  = Inr r
              \<and> rs_rows r = map (\<lambda>n. Inr (Some n)) names
              \<and> rs_failure r = Some y \<and> tablePattern = Some p \<and> Pattern_compile e p = Inr rx \<longrightarrow>
              x = y)
         \<and> (conn_getMetaData c = Inr dmd \<and> user = Some u
              \<and> dmd_getTables dmd database (Some (String_toUpperCase e u)) None (Some [''TABLE''])
                  = Inl y \<longrightarrow>
              rs = None \<and> x = y)"
proof -
  have released_all: "close (Some c) None rs =
      (Inr (), release_events Close_rs (map_option rs_close rs)
               @ release_events Close_conn (Some (conn_close c)))"
    using close_events[of rs None "Some c"] assms(3,4)
    by (simp add: completes_def release_events_def)
  have run: "getMySqlTables e url database tablePattern user password =
           (Inl x,
            Call_getConnection MYSQL \<lparr>cp_jdbcUrl = url, cp_user = user, cp_password = password\<rparr>
              # t @ snd (close (Some c) None rs))"
    using getMySqlTables_acquired[OF assms(1), where database = database
        and tablePattern = tablePattern] assms(2) released_all
    by simp
  have quiet: "filter is_release t = []"
    using try_block_no_release[of e "Some c" database tablePattern user] assms(2) by simp
  have "filter is_release (snd (close (Some c) None rs)) =
          (case rs of None \<Rightarrow> [Close_conn] | Some r \<Rightarrow> [Close_rs, Close_conn])"
    using released_all by (cases rs) (simp_all add: filter_release_events)
  with run quiet have released:
    "filter is_release (snd (getMySqlTables e url database tablePattern user password)) =
       (case rs of None \<Rightarrow> [Close_conn] | Some r \<Rightarrow> [Close_rs, Close_conn])"
    by simp
  have cursor: "conn_getMetaData c = Inr dmd \<and> user = Some u
      \<and> dmd_getTables dmd database (Some (String_toUpperCase e u)) None (Some [''TABLE''])
          = Inr r \<longrightarrow>
      rs = Some r"
    using assms(2) by (auto simp: try_block_def case_prod_beta)
  have broken: "conn_getMetaData c = Inr dmd \<and> user = Some u
      \<and> dmd_getTables dmd database (Some (String_toUpperCase e u)) None (Some [''TABLE''])
          = Inr r
      \<and> rs_rows r = map (\<lambda>n. Inr (Some n)) names
      \<and> rs_failure r = Some y \<and> tablePattern = Some p \<and> Pattern_compile e p = Inr rx \<longrightarrow>
      x = y"
  proof (intro impI, elim conjE)
    assume "conn_getMetaData c = Inr dmd" and "user = Some u"
      and "dmd_getTables dmd database (Some (String_toUpperCase e u)) None (Some [''TABLE''])
          = Inr r"
      and rows: "rs_rows r = map (\<lambda>n. Inr (Some n)) names"
      and failure: "rs_failure r = Some y" and "tablePattern = Some p"
      and compiled: "Pattern_compile e p = Inr rx"
    with assms(2)
    have "fst (scan e (Some p) (map (\<lambda>n. Inr (Some n)) names) (rs_failure r) []) = Inl x"
      by (auto simp: try_block_def case_prod_beta)
    with scan_result[OF compiled, of names "rs_failure r" "[]"] failure
    show "x = y" by simp
  qed
  have refused: "conn_getMetaData c = Inr dmd \<and> user = Some u
      \<and> dmd_getTables dmd database (Some (String_toUpperCase e u)) None (Some [''TABLE''])
          = Inl y \<longrightarrow>
      rs = None \<and> x = y"
    using assms(2) by (auto simp: try_block_def)
  from run released cursor broken refused show ?thesis
    by - (intro conjI; assumption)
qed

text \<open>
  The theorem at a cursor that breaks after two rows, while both releases throw
  \<^verbatim>\<open>SQLException\<close> as well: the caller sees the cursor's failure, and the cursor and
  the connection are released once each.
\<close>

theorem getMySqlTables_query_error_released_witness:
  "provider_getConnection (mysql_only broken_conn) MYSQL
     \<lparr>cp_jdbcUrl = Some ''host:3306'', cp_user = Some ''alice'', cp_password = Some ''secret''\<rparr>
     = Inr (Some broken_conn)
   \<and> try_block (mysql_only broken_conn) (Some broken_conn) (Some ''reporting'')
        (Some ''^orders.*$'') (Some ''alice'')
      = ((Some broken_rs, Inl (SQLException ''Communications link failure'')),
         [Call_getMetaData,
          Call_getTables (Some ''reporting'') (Some ''ALICE'') None (Some [''TABLE'']),
          Call_next, Call_getString ''TABLE_NAME'', Call_getString ''TABLE_NAME'',
          Call_next, Call_getString ''TABLE_NAME'',
          Call_next])
   \<and> completes (map_option rs_close (Some broken_rs))
   \<and> completes (Some (conn_close broken_conn))
   \<and> fst (getMySqlTables (mysql_only broken_conn) (Some ''host:3306'') (Some ''reporting'')
        (Some ''^orders.*$'') (Some ''alice'') (Some ''secret''))
      = Inl (SQLException ''Communications link failure'')
   \<and> filter is_release (snd (getMySqlTables (mysql_only broken_conn) (Some ''host:3306'')
        (Some ''reporting'') (Some ''^orders.*$'') (Some ''alice'') (Some ''secret'')))
      = [Close_rs, Close_conn]"
proof -
  have acquired: "provider_getConnection (mysql_only broken_conn) MYSQL
     \<lparr>cp_jdbcUrl = Some ''host:3306'', cp_user = Some ''alice'', cp_password = Some ''secret''\<rparr>
     = Inr (Some broken_conn)"
    by (simp add: mysql_only_def)
  have block: "try_block (mysql_only broken_conn) (Some broken_conn) (Some ''reporting'')
        (Some ''^orders.*$'') (Some ''alice'')
      = ((Some broken_rs, Inl (SQLException ''Communications link failure'')),
         [Call_getMetaData,
          Call_getTables (Some ''reporting'') (Some ''ALICE'') None (Some [''TABLE'']),
          Call_next, Call_getString ''TABLE_NAME'', Call_getString ''TABLE_NAME'',
          Call_next, Call_getString ''TABLE_NAME'',
          Call_next])"
    by (simp add: try_block_def broken_conn_def alice_metadata_def broken_rs_def
          ascii_toUpperCase_def Pattern_matches_def mysql_only_def orders_pattern_def)
  have cursor: "completes (map_option rs_close (Some broken_rs))"
    by (simp add: completes_def broken_rs_def)
  have connection: "completes (Some (conn_close broken_conn))"
    by (simp add: completes_def broken_conn_def)
  note main = getMySqlTables_query_error_released[OF acquired block cursor connection]
  have observed: "fst (getMySqlTables (mysql_only broken_conn) (Some ''host:3306'') (Some ''reporting'')
        (Some ''^orders.*$'') (Some ''alice'') (Some ''secret''))
      = Inl (SQLException ''Communications link failure'')"
    using conjunct1[OF main] by simp
  have released: "filter is_release (snd (getMySqlTables (mysql_only broken_conn) (Some ''host:3306'')
        (Some ''reporting'') (Some ''^orders.*$'') (Some ''alice'') (Some ''secret'')))
      = [Close_rs, Close_conn]"
    using conjunct1[OF conjunct2[OF main]] by simp
  from acquired block cursor connection observed released show ?thesis by blast
qed

text \<open>
  C1 as stated fails, twice over. In the run above the scan throws after it has yielded
  rows, and the statement release is called not once but never. And when the release of
  the cursor throws an unchecked exception, \<^verbatim>\<open>catch (SQLException e)\<close> lets it pass:
  the connection is not released at all, and the caller observes the exception of the
  release in place of the query error.
\<close>

theorem statement_release_never_invoked:
  "fst (getMySqlTables (mysql_only broken_conn) (Some ''host:3306'') (Some ''reporting'')
        (Some ''^orders.*$'') (Some ''alice'') (Some ''secret''))
      = Inl (SQLException ''Communications link failure'')
   \<and> count_list (snd (getMySqlTables (mysql_only broken_conn) (Some ''host:3306'')
        (Some ''reporting'') (Some ''^orders.*$'') (Some ''alice'') (Some ''secret''))) Close_stmt = 0
   \<and> snd (fst (try_block (mysql_only crashing_conn) (Some crashing_conn) (Some ''reporting'')
        (Some ''^orders.*$'') (Some ''alice'')))
      = Inl (SQLException ''Communications link failure'')
   \<and> fst (getMySqlTables (mysql_only crashing_conn) (Some ''host:3306'') (Some ''reporting'')
        (Some ''^orders.*$'') (Some ''alice'') (Some ''secret''))
      = Inl (RuntimeException ''driver bug'')
   \<and> count_list (snd (getMySqlTables (mysql_only crashing_conn) (Some ''host:3306'')
        (Some ''reporting'') (Some ''^orders.*$'') (Some ''alice'') (Some ''secret''))) Close_conn = 0"
proof -
  have broken_run: "getMySqlTables (mysql_only broken_conn) (Some ''host:3306'') (Some ''reporting'')
        (Some ''^orders.*$'') (Some ''alice'') (Some ''secret'')
      = (Inl (SQLException ''Communications link failure''),
         [Call_getConnection MYSQL
            \<lparr>cp_jdbcUrl = Some ''host:3306'', cp_user = Some ''alice'',
             cp_password = Some ''secret''\<rparr>,
          Call_getMetaData,
          Call_getTables (Some ''reporting'') (Some ''ALICE'') None (Some [''TABLE'']),
          Call_next, Call_getString ''TABLE_NAME'', Call_getString ''TABLE_NAME'',
          Call_next, Call_getString ''TABLE_NAME'',
          Call_next,
          Close_rs, PrintStackTrace (SQLException ''cursor gone''),
          Close_conn, PrintStackTrace (SQLException ''socket closed'')])"
    by (simp add: getMySqlTables_def close_def then_do_def skip_def guarded_close
          release_events_def try_block_def broken_conn_def alice_metadata_def broken_rs_def
          ascii_toUpperCase_def Pattern_matches_def mysql_only_def orders_pattern_def)
  have crashing_block: "try_block (mysql_only crashing_conn) (Some crashing_conn)
        (Some ''reporting'') (Some ''^orders.*$'') (Some ''alice'')
      = ((Some crashing_rs, Inl (SQLException ''Communications link failure'')),
         [Call_getMetaData,
          Call_getTables (Some ''reporting'') (Some ''ALICE'') None (Some [''TABLE'']),
          Call_next, Call_getString ''TABLE_NAME'', Call_getString ''TABLE_NAME'',
          Call_next, Call_getString ''TABLE_NAME'',
          Call_next])"
    by (simp add: try_block_def crashing_conn_def crashing_rs_def alice_metadata_def broken_rs_def
          ascii_toUpperCase_def Pattern_matches_def mysql_only_def orders_pattern_def)
  have crashing_run: "getMySqlTables (mysql_only crashing_conn) (Some ''host:3306'')
        (Some ''reporting'') (Some ''^orders.*$'') (Some ''alice'') (Some ''secret'')
      = (Inl (RuntimeException ''driver bug''),
         [Call_getConnection MYSQL
            \<lparr>cp_jdbcUrl = Some ''host:3306'', cp_user = Some ''alice'',
             cp_password = Some ''secret''\<rparr>,
          Call_getMetaData,
          Call_getTables (Some ''reporting'') (Some ''ALICE'') None (Some [''TABLE'']),
          Call_next, Call_getString ''TABLE_NAME'', Call_getString ''TABLE_NAME'',
          Call_next, Call_getString ''TABLE_NAME'',
          Call_next,
          Close_rs])"
  proof -
    have acquired: "provider_getConnection (mysql_only crashing_conn) MYSQL
        \<lparr>cp_jdbcUrl = Some ''host:3306'', cp_user = Some ''alice'', cp_password = Some ''secret''\<rparr>
        = Inr (Some crashing_conn)"
      by (simp add: mysql_only_def)
    have escapes: "close (Some crashing_conn) None (Some crashing_rs) =
        (Inl (RuntimeException ''driver bug''), [Close_rs])"
      by (rule close_rs_escapes) (simp_all add: crashing_rs_def)
    show ?thesis
      using getMySqlTables_acquired[OF acquired, of "Some ''reporting''" "Some ''^orders.*$''"]
        crashing_block escapes
      by simp
  qed
  show ?thesis
    by (simp add: broken_run crashing_block crashing_run)
qed

subsection \<open>C9: a null user\<close>

text \<open>
  C9. Nothing is checked before the connection is requested: with a \<^verbatim>\<open>null\<close> user,
  a provider that answers a connection and a connection that answers its metadata, the
  run requests the connection (with the \<^verbatim>\<open>null\<close> user in the parameters), fetches the
  metadata, fails with \<^verbatim>\<open>NullPointerException\<close> at \<^verbatim>\<open>user.toUpperCase()\<close> before any
  metadata query is issued, and calls the release of the connection before it returns.
  The caller sees that \<^verbatim>\<open>NullPointerException\<close>, unless the \<^verbatim>\<open>close()\<close> of the
  connection throws an unchecked exception, which then takes its place; when
  \<^verbatim>\<open>close()\<close> returns or throws \<^verbatim>\<open>SQLException\<close>, outcome and events are as stated.
\<close>

theorem getMySqlTables_null_user:
  assumes "provider_getConnection e MYSQL
             \<lparr>cp_jdbcUrl = url, cp_user = None, cp_password = password\<rparr> = Inr (Some c)"
      and "conn_getMetaData c = Inr dmd"
  shows "try_block e (Some c) database tablePattern None =
           ((None, Inl NullPointerException), [Call_getMetaData])
         \<and> snd (getMySqlTables e url database tablePattern None password) =
             [Call_getConnection MYSQL \<lparr>cp_jdbcUrl = url, cp_user = None, cp_password = password\<rparr>,
              Call_getMetaData]
             @ release_events Close_conn (Some (conn_close c))
         \<and> fst (getMySqlTables e url database tablePattern None password) =
             (case fst (close (Some c) None None) of
                Inl x \<Rightarrow> Inl x
              | Inr u \<Rightarrow> Inl NullPointerException)
         \<and> (completes (Some (conn_close c)) \<longrightarrow>
             getMySqlTables e url database tablePattern None password =
               (Inl NullPointerException,
                [Call_getConnection MYSQL
                   \<lparr>cp_jdbcUrl = url, cp_user = None, cp_password = password\<rparr>,
                 Call_getMetaData]
                @ release_events Close_conn (Some (conn_close c))))"
proof -
  have block: "try_block e (Some c) database tablePattern None =
      ((None, Inl NullPointerException), [Call_getMetaData])"
    using assms(2) by (simp add: try_block_def)
  note run = getMySqlTables_acquired[OF assms(1), where database = database
      and tablePattern = tablePattern]
  have events: "snd (getMySqlTables e url database tablePattern None password) =
             [Call_getConnection MYSQL \<lparr>cp_jdbcUrl = url, cp_user = None, cp_password = password\<rparr>,
              Call_getMetaData]
             @ release_events Close_conn (Some (conn_close c))"
    using run block by (simp add: close_conn_only)
  have outcome: "fst (getMySqlTables e url database tablePattern None password) =
             (case fst (close (Some c) None None) of
                Inl x \<Rightarrow> Inl x
              | Inr u \<Rightarrow> Inl NullPointerException)"
    using run block by (simp split: sum.splits)
  have absorbed: "completes (Some (conn_close c)) \<longrightarrow>
             getMySqlTables e url database tablePattern None password =
               (Inl NullPointerException,
                [Call_getConnection MYSQL
                   \<lparr>cp_jdbcUrl = url, cp_user = None, cp_password = password\<rparr>,
                 Call_getMetaData]
                @ release_events Close_conn (Some (conn_close c)))"
  proof
    assume "completes (Some (conn_close c))"
    then have "fst (close (Some c) None None) = Inr ()"
      using close_events[of None None "Some c"] by (simp add: completes_def)
    with outcome events show "getMySqlTables e url database tablePattern None password =
               (Inl NullPointerException,
                [Call_getConnection MYSQL
                   \<lparr>cp_jdbcUrl = url, cp_user = None, cp_password = password\<rparr>,
                 Call_getMetaData]
                @ release_events Close_conn (Some (conn_close c)))"
      by (simp add: prod_eq_iff)
  qed
  from block events outcome absorbed show ?thesis
    by - (intro conjI; assumption)
qed

text \<open>The theorem at a connection whose release throws \<^verbatim>\<open>SQLException\<close> as well.\<close>

theorem getMySqlTables_null_user_witness:
  "provider_getConnection (mysql_only broken_conn) MYSQL
     \<lparr>cp_jdbcUrl = Some ''host:3306'', cp_user = None, cp_password = Some ''secret''\<rparr>
     = Inr (Some broken_conn)
   \<and> conn_getMetaData broken_conn = Inr (alice_metadata (Inr broken_rs))
   \<and> completes (Some (conn_close broken_conn))
   \<and> getMySqlTables (mysql_only broken_conn) (Some ''host:3306'') (Some ''reporting'')
        (Some ''^orders.*$'') None (Some ''secret'')
     = (Inl NullPointerException,
        [Call_getConnection MYSQL
           \<lparr>cp_jdbcUrl = Some ''host:3306'', cp_user = None, cp_password = Some ''secret''\<rparr>,
         Call_getMetaData, Close_conn, PrintStackTrace (SQLException ''socket closed'')])"
proof -
  have acquired: "provider_getConnection (mysql_only broken_conn) MYSQL
     \<lparr>cp_jdbcUrl = Some ''host:3306'', cp_user = None, cp_password = Some ''secret''\<rparr>
     = Inr (Some broken_conn)"
    by (simp add: mysql_only_def)
  have metadata: "conn_getMetaData broken_conn = Inr (alice_metadata (Inr broken_rs))"
    by (simp add: broken_conn_def)
  have connection: "completes (Some (conn_close broken_conn))"
    by (simp add: completes_def broken_conn_def)
  have closing: "release_events Close_conn (Some (conn_close broken_conn)) =
      [Close_conn, PrintStackTrace (SQLException ''socket closed'')]"
    by (simp add: release_events_def broken_conn_def)
  note main = getMySqlTables_null_user[OF acquired metadata,
      of "Some ''reporting''" "Some ''^orders.*$''"]
  have "getMySqlTables (mysql_only broken_conn) (Some ''host:3306'') (Some ''reporting'')
        (Some ''^orders.*$'') None (Some ''secret'')
     = (Inl NullPointerException,
        [Call_getConnection MYSQL
           \<lparr>cp_jdbcUrl = Some ''host:3306'', cp_user = None, cp_password = Some ''secret''\<rparr>,
         Call_getMetaData]
        @ release_events Close_conn (Some (conn_close broken_conn)))"
    using main connection by blast
  with acquired metadata connection closing show ?thesis by simp
qed

subsection \<open>C8: the release helper and null\<close>

text \<open>
  C8, as the code has it. For every combination of \<^verbatim>\<open>null\<close> and non-\<^verbatim>\<open>null\<close> cursor,
  statement and connection: when every \<^verbatim>\<open>close()\<close> that is called returns or throws
  an \<^verbatim>\<open>SQLException\<close>, \<open>close\<close> returns normally, and its events are those of
  releasing the cursor alone, then the statement alone, then the connection alone, so
  that a \<^verbatim>\<open>null\<close> argument contributes nothing and changes nothing in the release of
  the others, and a resource is released exactly when it is not \<^verbatim>\<open>null\<close>. With three
  \<^verbatim>\<open>null\<close> arguments nothing happens. A throwable other than \<^verbatim>\<open>SQLException\<close> from a
  \<^verbatim>\<open>close()\<close> is not caught: it leaves \<open>close\<close> at once, after the releases that came
  before it, and the resources later in the order are not released.
\<close>

theorem close_total_null_tolerant:
  "(completes (map_option rs_close rs) \<and> completes (map_option stmt_close stmt)
      \<and> completes (map_option conn_close conn) \<longrightarrow>
      fst (close conn stmt rs) = Inr ()
      \<and> snd (close conn stmt rs) =
          snd (close None None rs) @ snd (close None stmt None) @ snd (close conn None None)
      \<and> (Close_rs \<in> set (snd (close conn stmt rs))) = (rs \<noteq> None)
      \<and> (Close_stmt \<in> set (snd (close conn stmt rs))) = (stmt \<noteq> None)
      \<and> (Close_conn \<in> set (snd (close conn stmt rs))) = (conn \<noteq> None))
   \<and> close None None None = (Inr (), [])
   \<and> (rs = Some r \<and> rs_close r = Some x \<and> \<not> is_SQLException x \<longrightarrow>
        close conn stmt rs = (Inl x, [Close_rs]))
   \<and> (completes (map_option rs_close rs)
        \<and> stmt = Some s \<and> stmt_close s = Some x \<and> \<not> is_SQLException x \<longrightarrow>
        close conn stmt rs =
          (Inl x, release_events Close_rs (map_option rs_close rs) @ [Close_stmt]))
   \<and> (completes (map_option rs_close rs) \<and> completes (map_option stmt_close stmt)
        \<and> conn = Some c \<and> conn_close c = Some x \<and> \<not> is_SQLException x \<longrightarrow>
        close conn stmt rs =
          (Inl x, release_events Close_rs (map_option rs_close rs)
                  @ release_events Close_stmt (map_option stmt_close stmt) @ [Close_conn]))"
proof -
  have normal: "fst (close conn stmt rs) = Inr ()
      \<and> snd (close conn stmt rs) =
          snd (close None None rs) @ snd (close None stmt None) @ snd (close conn None None)
      \<and> (Close_rs \<in> set (snd (close conn stmt rs))) = (rs \<noteq> None)
      \<and> (Close_stmt \<in> set (snd (close conn stmt rs))) = (stmt \<noteq> None)
      \<and> (Close_conn \<in> set (snd (close conn stmt rs))) = (conn \<noteq> None)"
    if cursor: "completes (map_option rs_close rs)"
      and statement: "completes (map_option stmt_close stmt)"
      and connection: "completes (map_option conn_close conn)"
  proof -
    have absent: "completes (map_option f None)" for f :: "'a \<Rightarrow> throwable option"
      by (simp add: completes_def)
    note all = close_events[OF cursor statement connection]
    have returns: "fst (close conn stmt rs) = Inr ()"
      by (simp add: all)
    have apart: "snd (close conn stmt rs) =
          snd (close None None rs) @ snd (close None stmt None) @ snd (close conn None None)"
      using close_events[OF cursor absent absent] close_events[OF absent statement absent]
        close_events[OF absent absent connection]
      by (simp add: all release_events_def)
    have in_rs: "(Close_rs \<in> set (snd (close conn stmt rs))) = (rs \<noteq> None)"
      by (auto simp: all release_in_release_events)
    have in_stmt: "(Close_stmt \<in> set (snd (close conn stmt rs))) = (stmt \<noteq> None)"
      by (auto simp: all release_in_release_events)
    have in_conn: "(Close_conn \<in> set (snd (close conn stmt rs))) = (conn \<noteq> None)"
      by (auto simp: all release_in_release_events)
    from returns apart in_rs in_stmt in_conn show ?thesis by blast
  qed
  have no_handle: "close None None None = (Inr (), [])"
    by (simp add: close_def then_do_def skip_def)
  have from_rs: "rs = Some r \<and> rs_close r = Some x \<and> \<not> is_SQLException x \<longrightarrow>
        close conn stmt rs = (Inl x, [Close_rs])"
    by (auto intro: close_rs_escapes)
  have from_stmt: "completes (map_option rs_close rs)
        \<and> stmt = Some s \<and> stmt_close s = Some x \<and> \<not> is_SQLException x \<longrightarrow>
        close conn stmt rs =
          (Inl x, release_events Close_rs (map_option rs_close rs) @ [Close_stmt])"
    by (auto intro: close_stmt_escapes)
  have from_conn: "completes (map_option rs_close rs) \<and> completes (map_option stmt_close stmt)
        \<and> conn = Some c \<and> conn_close c = Some x \<and> \<not> is_SQLException x \<longrightarrow>
        close conn stmt rs =
          (Inl x, release_events Close_rs (map_option rs_close rs)
                  @ release_events Close_stmt (map_option stmt_close stmt) @ [Close_conn])"
    by (auto intro: close_conn_escapes)
  from normal no_handle from_rs from_stmt from_conn show ?thesis
    by - (intro conjI impI; assumption?; blast)
qed

text \<open>
  The theorem at three resources whose \<^verbatim>\<open>close()\<close> all throw \<^verbatim>\<open>SQLException\<close>, and at
  a connection alone.
\<close>

theorem close_total_null_tolerant_witness:
  "completes (map_option rs_close (Some broken_rs))
   \<and> completes (map_option stmt_close (Some failing_stmt))
   \<and> completes (map_option conn_close (Some broken_conn))
   \<and> close (Some broken_conn) (Some failing_stmt) (Some broken_rs) =
     (Inr (),
      [Close_rs, PrintStackTrace (SQLException ''cursor gone''),
       Close_stmt, PrintStackTrace (SQLException ''statement gone''),
       Close_conn, PrintStackTrace (SQLException ''socket closed'')])
   \<and> close (Some broken_conn) None None =
     (Inr (), [Close_conn, PrintStackTrace (SQLException ''socket closed'')])"
proof -
  have cursor: "completes (map_option rs_close (Some broken_rs))"
    by (simp add: completes_def broken_rs_def)
  have statement: "completes (map_option stmt_close (Some failing_stmt))"
    by (simp add: completes_def failing_stmt_def)
  have connection: "completes (map_option conn_close (Some broken_conn))"
    by (simp add: completes_def broken_conn_def)
  note total = close_total_null_tolerant[of "Some broken_rs" "Some failing_stmt" "Some broken_conn"]
  have "fst (close (Some broken_conn) (Some failing_stmt) (Some broken_rs)) = Inr ()"
    using total cursor statement connection by blast
  moreover have "snd (close (Some broken_conn) (Some failing_stmt) (Some broken_rs)) =
      [Close_rs, PrintStackTrace (SQLException ''cursor gone''),
       Close_stmt, PrintStackTrace (SQLException ''statement gone''),
       Close_conn, PrintStackTrace (SQLException ''socket closed'')]"
    by (simp add: close_def then_do_def skip_def catch_SQLException_def call_close_def
          printStackTrace_def broken_conn_def failing_stmt_def broken_rs_def)
  moreover have "close (Some broken_conn) None None =
     (Inr (), [Close_conn, PrintStackTrace (SQLException ''socket closed'')])"
    by (simp add: close_def then_do_def skip_def catch_SQLException_def call_close_def
          printStackTrace_def broken_conn_def)
  ultimately show ?thesis
    using cursor statement connection by (simp add: prod_eq_iff)
qed

text \<open>
  C8 as stated fails: when the \<^verbatim>\<open>close()\<close> of the cursor throws an unchecked
  exception, \<open>close\<close> does not return normally, and neither the statement nor the
  connection is released.
\<close>

theorem unchecked_close_leaves_helper:
  "close (Some broken_conn) (Some failing_stmt) (Some crashing_rs) =
     (Inl (RuntimeException ''driver bug''), [Close_rs])"
  by (rule close_rs_escapes) (simp_all add: crashing_rs_def)

subsection \<open>C4: order of the releases, and failures of a release\<close>

lemma scan_no_statement: "Close_stmt \<notin> set (snd (scan e p rows failure tables))"
  by (induction rows arbitrary: tables)
     (simp_all add: case_prod_beta split: option.splits sum.splits)

lemma try_block_no_statement:
  "Close_stmt \<notin> set (snd (try_block e conn database tablePattern user))"
  by (simp add: try_block_def case_prod_beta scan_no_statement split: option.splits sum.splits)

lemma close_no_statement: "Close_stmt \<notin> set (snd (close conn None rs))"
  by (cases rs; cases conn)
     (auto simp: close_def then_do_def skip_def guarded_close release_events_def
        split: option.splits if_splits)

lemma getMySqlTables_no_statement:
  "Close_stmt \<notin> set (snd (getMySqlTables e url database tablePattern user password))"
proof (cases "provider_getConnection e MYSQL
             \<lparr>cp_jdbcUrl = url, cp_user = user, cp_password = password\<rparr>")
  case (Inl x)
  then show ?thesis by (simp add: getMySqlTables_def)
next
  case (Inr conn)
  show ?thesis
    using getMySqlTables_acquired[OF Inr, where database = database
        and tablePattern = tablePattern]
    by (simp add: try_block_no_statement close_no_statement)
qed

text \<open>
  C4, as the code has it. As long as every \<^verbatim>\<open>close()\<close> that is called returns or
  throws an \<^verbatim>\<open>SQLException\<close>: the release calls of the helper are, in this order, the
  cursor's, the statement's and the connection's, each attempted exactly when its handle
  is not \<^verbatim>\<open>null\<close>, whatever the earlier releases answered; a release that throws
  leaves its printed stack trace after its call and nothing else, and the helper returns
  normally. A run of \<^verbatim>\<open>getMySqlTables\<close> that obtained an answer from the provider
  ends with the events of the helper, called with the connection, a \<^verbatim>\<open>null\<close>
  statement and the cursor of the \<^verbatim>\<open>try\<close> block; under the same condition on the
  two \<^verbatim>\<open>close()\<close> calls it ends the way its \<^verbatim>\<open>try\<close> block ended (with its list of
  tables or with its throwable). No run of \<^verbatim>\<open>getMySqlTables\<close> calls a statement
  release.
\<close>

theorem close_release_order_absorbed:
  "(completes (map_option rs_close rs) \<and> completes (map_option stmt_close stmt)
      \<and> completes (map_option conn_close conn) \<longrightarrow>
      filter is_release (snd (close conn stmt rs)) =
          (case rs of None \<Rightarrow> [] | Some r \<Rightarrow> [Close_rs])
        @ (case stmt of None \<Rightarrow> [] | Some s \<Rightarrow> [Close_stmt])
        @ (case conn of None \<Rightarrow> [] | Some c \<Rightarrow> [Close_conn])
      \<and> close conn stmt rs =
         (Inr (),
          release_events Close_rs (map_option rs_close rs)
          @ release_events Close_stmt (map_option stmt_close stmt)
          @ release_events Close_conn (map_option conn_close conn)))
   \<and> (provider_getConnection e MYSQL
         \<lparr>cp_jdbcUrl = url, cp_user = user, cp_password = password\<rparr> = Inr conn \<longrightarrow>
        snd (getMySqlTables e url database tablePattern user password) =
          Call_getConnection MYSQL \<lparr>cp_jdbcUrl = url, cp_user = user, cp_password = password\<rparr>
            # snd (try_block e conn database tablePattern user)
            @ snd (close conn None (fst (fst (try_block e conn database tablePattern user)))))
   \<and> (provider_getConnection e MYSQL
         \<lparr>cp_jdbcUrl = url, cp_user = user, cp_password = password\<rparr> = Inr conn
       \<and> completes (map_option conn_close conn)
       \<and> completes (map_option rs_close (fst (fst (try_block e conn database tablePattern user)))) \<longrightarrow>
        fst (getMySqlTables e url database tablePattern user password) =
          snd (fst (try_block e conn database tablePattern user)))
   \<and> Close_stmt \<notin> set (snd (getMySqlTables e url database tablePattern user password))"
proof -
  have sequence: "filter is_release (snd (close conn stmt rs)) =
          (case rs of None \<Rightarrow> [] | Some r \<Rightarrow> [Close_rs])
        @ (case stmt of None \<Rightarrow> [] | Some s \<Rightarrow> [Close_stmt])
        @ (case conn of None \<Rightarrow> [] | Some c \<Rightarrow> [Close_conn])
      \<and> close conn stmt rs =
         (Inr (),
          release_events Close_rs (map_option rs_close rs)
          @ release_events Close_stmt (map_option stmt_close stmt)
          @ release_events Close_conn (map_option conn_close conn))"
    if "completes (map_option rs_close rs)" and "completes (map_option stmt_close stmt)"
      and "completes (map_option conn_close conn)"
    using close_events[OF that]
    by (simp add: filter_release_events split: option.splits)
  have events: "snd (getMySqlTables e url database tablePattern user password) =
          Call_getConnection MYSQL \<lparr>cp_jdbcUrl = url, cp_user = user, cp_password = password\<rparr>
            # snd (try_block e conn database tablePattern user)
            @ snd (close conn None (fst (fst (try_block e conn database tablePattern user))))"
    if "provider_getConnection e MYSQL
         \<lparr>cp_jdbcUrl = url, cp_user = user, cp_password = password\<rparr> = Inr conn"
    using getMySqlTables_acquired[OF that, where database = database
        and tablePattern = tablePattern]
    by simp
  have outcome: "fst (getMySqlTables e url database tablePattern user password) =
         snd (fst (try_block e conn database tablePattern user))"
    if acquired: "provider_getConnection e MYSQL
         \<lparr>cp_jdbcUrl = url, cp_user = user, cp_password = password\<rparr> = Inr conn"
      and connection: "completes (map_option conn_close conn)"
      and cursor: "completes (map_option rs_close
            (fst (fst (try_block e conn database tablePattern user))))"
  proof -
    have absent: "completes (map_option stmt_close None)"
      by (simp add: completes_def)
    have "fst (close conn None (fst (fst (try_block e conn database tablePattern user)))) = Inr ()"
      using close_events[OF cursor absent connection] by simp
    then show ?thesis
      using getMySqlTables_acquired[OF acquired, where database = database
          and tablePattern = tablePattern]
      by simp
  qed
  have no_statement: "Close_stmt \<notin> set (snd (getMySqlTables e url database tablePattern user password))"
    by (rule getMySqlTables_no_statement)
  from sequence events outcome no_statement show ?thesis
    by - (intro conjI impI; assumption?; blast)
qed


text \<open>
  The theorem at a successful run whose cursor release throws \<^verbatim>\<open>SQLException\<close>: the
  cursor and the connection are released in this order, the failure is printed, and the
  caller gets the two matching tables.
\<close>

theorem close_release_order_absorbed_witness:
  "completes (map_option rs_close (Some orders_rs))
   \<and> completes (map_option stmt_close None)
   \<and> completes (map_option conn_close (Some orders_conn))
   \<and> filter is_release (snd (close (Some orders_conn) None (Some orders_rs))) = [Close_rs, Close_conn]
   \<and> close (Some orders_conn) None (Some orders_rs) =
       (Inr (), [Close_rs, PrintStackTrace (SQLException ''cursor gone''), Close_conn])
   \<and> provider_getConnection (mysql_only orders_conn) MYSQL
        \<lparr>cp_jdbcUrl = Some ''host:3306'', cp_user = Some ''alice'', cp_password = Some ''secret''\<rparr>
       = Inr (Some orders_conn)
   \<and> fst (try_block (mysql_only orders_conn) (Some orders_conn) (Some ''reporting'')
        (Some ''^orders.*$'') (Some ''alice''))
       = (Some orders_rs, Inr [Some ''orders'', Some ''orders_archive''])
   \<and> fst (getMySqlTables (mysql_only orders_conn) (Some ''host:3306'') (Some ''reporting'')
        (Some ''^orders.*$'') (Some ''alice'') (Some ''secret''))
       = Inr [Some ''orders'', Some ''orders_archive'']"
proof -
  note main = close_release_order_absorbed[of "Some orders_rs" None "Some orders_conn"
      "mysql_only orders_conn" "Some ''host:3306''" "Some ''alice''" "Some ''secret''"
      "Some ''reporting''" "Some ''^orders.*$''"]
  have cursor: "completes (map_option rs_close (Some orders_rs))"
    by (simp add: completes_def orders_rs_def)
  have statement: "completes (map_option stmt_close None)"
    by (simp add: completes_def)
  have connection: "completes (map_option conn_close (Some orders_conn))"
    by (simp add: completes_def orders_conn_def)
  have acquired: "provider_getConnection (mysql_only orders_conn) MYSQL
        \<lparr>cp_jdbcUrl = Some ''host:3306'', cp_user = Some ''alice'', cp_password = Some ''secret''\<rparr>
       = Inr (Some orders_conn)"
    by (simp add: mysql_only_def)
  have block: "fst (try_block (mysql_only orders_conn) (Some orders_conn) (Some ''reporting'')
        (Some ''^orders.*$'') (Some ''alice''))
       = (Some orders_rs, Inr [Some ''orders'', Some ''orders_archive''])"
    by (simp add: try_block_def orders_conn_def alice_metadata_def orders_rs_def
          ascii_toUpperCase_def Pattern_matches_def mysql_only_def orders_pattern_def)
  have handles: "completes (map_option rs_close (Some orders_rs))
      \<and> completes (map_option stmt_close None)
      \<and> completes (map_option conn_close (Some orders_conn))"
    using cursor statement connection by blast
  note sequence = mp[OF conjunct1[OF main] handles]
  have order: "filter is_release (snd (close (Some orders_conn) None (Some orders_rs))) =
      [Close_rs, Close_conn]"
    using conjunct1[OF sequence] by simp
  have diagnostics: "close (Some orders_conn) None (Some orders_rs) =
       (Inr (), [Close_rs, PrintStackTrace (SQLException ''cursor gone''), Close_conn])"
    using conjunct2[OF sequence]
    by (simp add: release_events_def orders_conn_def orders_rs_def)
  have run: "provider_getConnection (mysql_only orders_conn) MYSQL
        \<lparr>cp_jdbcUrl = Some ''host:3306'', cp_user = Some ''alice'', cp_password = Some ''secret''\<rparr>
       = Inr (Some orders_conn)
      \<and> completes (map_option conn_close (Some orders_conn))
      \<and> completes (map_option rs_close
           (fst (fst (try_block (mysql_only orders_conn) (Some orders_conn) (Some ''reporting'')
              (Some ''^orders.*$'') (Some ''alice'')))))"
    using acquired connection cursor by (simp add: block)
  have outcome: "fst (getMySqlTables (mysql_only orders_conn) (Some ''host:3306'')
        (Some ''reporting'') (Some ''^orders.*$'') (Some ''alice'') (Some ''secret''))
       = Inr [Some ''orders'', Some ''orders_archive'']"
    using mp[OF conjunct1[OF conjunct2[OF conjunct2[OF main]]] run] by (simp add: block)
  from cursor statement connection order diagnostics acquired block outcome
  show ?thesis by blast
qed

text \<open>
  C4 as stated fails, twice over. When the metadata query is refused, the run attempts
  one release call, the connection's; neither the cursor's nor the statement's is
  attempted. And when the release of the cursor throws an unchecked exception after a
  successful scan, the connection's release is not attempted, and the caller gets that
  exception in place of the tables.
\<close>

theorem release_calls_skipped_for_null_handles:
  "fst (getMySqlTables (mysql_only denied_conn) (Some ''host:3306'') (Some ''reporting'')
        (Some ''^orders.*$'') (Some ''alice'') (Some ''secret''))
     = Inl (SQLException ''Access denied'')
   \<and> filter is_release (snd (getMySqlTables (mysql_only denied_conn) (Some ''host:3306'')
        (Some ''reporting'') (Some ''^orders.*$'') (Some ''alice'') (Some ''secret'')))
     = [Close_conn]
   \<and> snd (fst (try_block (mysql_only crashing_orders_conn) (Some crashing_orders_conn)
        (Some ''reporting'') (Some ''^orders.*$'') (Some ''alice'')))
     = Inr [Some ''orders'', Some ''orders_archive'']
   \<and> fst (getMySqlTables (mysql_only crashing_orders_conn) (Some ''host:3306'')
        (Some ''reporting'') (Some ''^orders.*$'') (Some ''alice'') (Some ''secret''))
     = Inl (RuntimeException ''driver bug'')
   \<and> filter is_release (snd (getMySqlTables (mysql_only crashing_orders_conn)
        (Some ''host:3306'') (Some ''reporting'') (Some ''^orders.*$'') (Some ''alice'')
        (Some ''secret'')))
     = [Close_rs]"
proof -
  have denied: "getMySqlTables (mysql_only denied_conn) (Some ''host:3306'') (Some ''reporting'')
        (Some ''^orders.*$'') (Some ''alice'') (Some ''secret'')
     = (Inl (SQLException ''Access denied''),
        [Call_getConnection MYSQL
           \<lparr>cp_jdbcUrl = Some ''host:3306'', cp_user = Some ''alice'',
            cp_password = Some ''secret''\<rparr>,
         Call_getMetaData,
         Call_getTables (Some ''reporting'') (Some ''ALICE'') None (Some [''TABLE'']),
         Close_conn])"
    by (simp add: getMySqlTables_def close_def then_do_def skip_def guarded_close
          release_events_def try_block_def denied_conn_def alice_metadata_def
          ascii_toUpperCase_def mysql_only_def)
  have acquired: "provider_getConnection (mysql_only crashing_orders_conn) MYSQL
        \<lparr>cp_jdbcUrl = Some ''host:3306'', cp_user = Some ''alice'', cp_password = Some ''secret''\<rparr>
       = Inr (Some crashing_orders_conn)"
    by (simp add: mysql_only_def)
  have block: "try_block (mysql_only crashing_orders_conn) (Some crashing_orders_conn)
        (Some ''reporting'') (Some ''^orders.*$'') (Some ''alice'')
     = ((Some crashing_orders_rs, Inr [Some ''orders'', Some ''orders_archive'']),
        [Call_getMetaData,
         Call_getTables (Some ''reporting'') (Some ''ALICE'') None (Some [''TABLE'']),
         Call_next, Call_getString ''TABLE_NAME'', Call_getString ''TABLE_NAME'',
         Call_next, Call_getString ''TABLE_NAME'',
         Call_next, Call_getString ''TABLE_NAME'', Call_getString ''TABLE_NAME'',
         Call_next])"
    by (simp add: try_block_def crashing_orders_conn_def crashing_orders_rs_def
          alice_metadata_def orders_rs_def ascii_toUpperCase_def Pattern_matches_def
          mysql_only_def orders_pattern_def)
  have escapes: "close (Some crashing_orders_conn) None (Some crashing_orders_rs) =
      (Inl (RuntimeException ''driver bug''), [Close_rs])"
    by (rule close_rs_escapes) (simp_all add: crashing_orders_rs_def)
  have crashed: "getMySqlTables (mysql_only crashing_orders_conn) (Some ''host:3306'')
        (Some ''reporting'') (Some ''^orders.*$'') (Some ''alice'') (Some ''secret'')
     = (Inl (RuntimeException ''driver bug''),
        [Call_getConnection MYSQL
           \<lparr>cp_jdbcUrl = Some ''host:3306'', cp_user = Some ''alice'',
            cp_password = Some ''secret''\<rparr>,
         Call_getMetaData,
         Call_getTables (Some ''reporting'') (Some ''ALICE'') None (Some [''TABLE'']),
         Call_next, Call_getString ''TABLE_NAME'', Call_getString ''TABLE_NAME'',
         Call_next, Call_getString ''TABLE_NAME'',
         Call_next, Call_getString ''TABLE_NAME'', Call_getString ''TABLE_NAME'',
         Call_next,
         Close_rs])"
    using getMySqlTables_acquired[OF acquired, of "Some ''reporting''" "Some ''^orders.*$''"]
      block escapes
    by simp
  show ?thesis
    by (simp add: denied block crashed)
qed

subsection \<open>The calls of a run\<close>

lemma queries_append: "queries (a @ b) = queries a @ queries b"
  by (induction a rule: queries.induct) simp_all

lemma connection_requests_append:
  "connection_requests (a @ b) = connection_requests a @ connection_requests b"
  by (induction a rule: connection_requests.induct) simp_all

lemma scan_quiet:
  "queries (snd (scan e p rows failure tables)) = []
   \<and> connection_requests (snd (scan e p rows failure tables)) = []"
  by (induction rows arbitrary: tables)
     (simp_all add: case_prod_beta split: option.splits sum.splits)

lemma close_quiet:
  "queries (snd (close conn stmt rs)) = []
   \<and> connection_requests (snd (close conn stmt rs)) = []"
  by (cases rs; cases stmt; cases conn)
     (auto simp: close_def then_do_def skip_def guarded_close release_events_def
        split: option.splits if_splits)

lemma try_block_queries:
  "queries (snd (try_block e conn database tablePattern user)) =
     (case conn of
        None \<Rightarrow> []
      | Some c \<Rightarrow>
          (case conn_getMetaData c of
             Inl x \<Rightarrow> []
           | Inr dmd \<Rightarrow>
               (case user of
                  None \<Rightarrow> []
                | Some u \<Rightarrow> [(database, Some (String_toUpperCase e u), None, Some [''TABLE''])])))"
  by (simp add: try_block_def case_prod_beta queries_append scan_quiet
        split: option.splits sum.splits)

lemma try_block_connection_requests:
  "connection_requests (snd (try_block e conn database tablePattern user)) = []"
  by (simp add: try_block_def case_prod_beta connection_requests_append scan_quiet
        split: option.splits sum.splits)

lemma getMySqlTables_queries:
  "queries (snd (getMySqlTables e url database tablePattern user password)) =
     (case provider_getConnection e MYSQL
             \<lparr>cp_jdbcUrl = url, cp_user = user, cp_password = password\<rparr> of
        Inl x \<Rightarrow> []
      | Inr conn \<Rightarrow> queries (snd (try_block e conn database tablePattern user)))"
proof (cases "provider_getConnection e MYSQL
             \<lparr>cp_jdbcUrl = url, cp_user = user, cp_password = password\<rparr>")
  case (Inl x)
  then show ?thesis by (simp add: getMySqlTables_def)
next
  case (Inr conn)
  then show ?thesis
    using getMySqlTables_acquired[OF Inr, where database = database
        and tablePattern = tablePattern]
    by (simp add: queries_append close_quiet)
qed

lemma getMySqlTables_success:
  assumes "provider_getConnection e MYSQL
             \<lparr>cp_jdbcUrl = url, cp_user = Some u, cp_password = password\<rparr> = Inr (Some c)"
      and "conn_getMetaData c = Inr dmd"
      and "dmd_getTables dmd database (Some (String_toUpperCase e u)) None (Some [''TABLE''])
             = Inr r"
      and "rs_rows r = map (\<lambda>n. Inr (Some n)) names"
      and "rs_failure r = None"
      and "Pattern_compile e p = Inr rx"
  shows "fst (getMySqlTables e url database (Some p) (Some u) password) =
           (case fst (close (Some c) None (Some r)) of
              Inl x \<Rightarrow> Inl x
            | Inr v \<Rightarrow> Inr (map Some (filter (Matcher_matches rx) names)))"
proof -
  have "try_block e (Some c) database (Some p) (Some u) =
          ((Some r, fst (scan e (Some p) (rs_rows r) (rs_failure r) [])),
           [Call_getMetaData,
            Call_getTables database (Some (String_toUpperCase e u)) None (Some [''TABLE''])]
           @ snd (scan e (Some p) (rs_rows r) (rs_failure r) []))"
    using assms(2,3) by (simp add: try_block_def case_prod_beta)
  moreover have "fst (scan e (Some p) (rs_rows r) (rs_failure r) []) =
      Inr (map Some (filter (Matcher_matches rx) names))"
    using scan_result[OF assms(6), of names "rs_failure r" "[]"] assms(4,5) by simp
  ultimately show ?thesis
    using getMySqlTables_acquired[OF assms(1), where database = database
        and tablePattern = "Some p"]
    by (simp split: sum.splits)
qed

lemma getMySqlTables_success_completes:
  assumes "provider_getConnection e MYSQL
             \<lparr>cp_jdbcUrl = url, cp_user = Some u, cp_password = password\<rparr> = Inr (Some c)"
      and "conn_getMetaData c = Inr dmd"
      and "dmd_getTables dmd database (Some (String_toUpperCase e u)) None (Some [''TABLE''])
             = Inr r"
      and "rs_rows r = map (\<lambda>n. Inr (Some n)) names"
      and "rs_failure r = None"
      and "Pattern_compile e p = Inr rx"
      and "completes (Some (rs_close r))"
      and "completes (Some (conn_close c))"
  shows "fst (getMySqlTables e url database (Some p) (Some u) password) =
           Inr (map Some (filter (Matcher_matches rx) names))"
proof -
  have "fst (close (Some c) None (Some r)) = Inr ()"
    using close_events[of "Some r" None "Some c"] assms(7,8) by (simp add: completes_def)
  then show ?thesis
    using getMySqlTables_success[OF assms(1-6)] by simp
qed

subsection \<open>Whole-input matching\<close>

text \<open>
  \<open>Matcher_matches\<close> accepts a text exactly when the whole text belongs to the language
  of the pattern: a match of a part of the text does not count.
\<close>

lemma nullable_lang: "nullable r \<longleftrightarrow> [] \<in> lang r"
  by (induction r) (auto simp: lang_concat_def intro: lang_star.no_round)

lemma cons_in_lang_concat:
  "x # s \<in> lang_concat A B \<longleftrightarrow>
     ([] \<in> A \<and> x # s \<in> B) \<or> (\<exists>u v. s = u @ v \<and> x # u \<in> A \<and> v \<in> B)"
  by (auto simp: lang_concat_def Cons_eq_append_conv)

lemma cons_in_lang_star_split:
  assumes "w \<in> lang_star A" and "w = x # s"
  shows "\<exists>u v. s = u @ v \<and> x # u \<in> A \<and> v \<in> lang_star A"
  using assms
proof (induction arbitrary: s rule: lang_star.induct)
  case no_round
  then show ?case by simp
next
  case (one_more_round u v)
  show ?case
  proof (cases u)
    case Nil
    with one_more_round show ?thesis by simp
  next
    case (Cons y u')
    with one_more_round.prems have "y = x" and "s = u' @ v" by simp_all
    with Cons one_more_round.hyps show ?thesis by blast
  qed
qed

lemma cons_in_lang_star:
  "x # s \<in> lang_star A \<longleftrightarrow> (\<exists>u v. s = u @ v \<and> x # u \<in> A \<and> v \<in> lang_star A)"
proof
  assume "x # s \<in> lang_star A"
  then show "\<exists>u v. s = u @ v \<and> x # u \<in> A \<and> v \<in> lang_star A"
    by (rule cons_in_lang_star_split) simp
next
  assume "\<exists>u v. s = u @ v \<and> x # u \<in> A \<and> v \<in> lang_star A"
  then obtain u v where "s = u @ v" and "x # u \<in> A" and "v \<in> lang_star A" by blast
  then show "x # s \<in> lang_star A"
    using lang_star.one_more_round[of "x # u" A v] by simp
qed

lemma deriv_lang: "s \<in> lang (deriv x r) \<longleftrightarrow> x # s \<in> lang r"
proof (induction r arbitrary: s)
  case (Cat a b)
  have "s \<in> lang (deriv x (Cat a b)) \<longleftrightarrow>
          (\<exists>u v. s = u @ v \<and> x # u \<in> lang a \<and> v \<in> lang b) \<or> (nullable a \<and> x # s \<in> lang b)"
    using Cat by (auto simp: lang_concat_def)
  also have "\<dots> \<longleftrightarrow> x # s \<in> lang (Cat a b)"
    by (auto simp: cons_in_lang_concat nullable_lang)
  finally show ?case .
next
  case (Rep a)
  then show ?case
    by (auto simp: cons_in_lang_star lang_concat_def)
qed auto

lemma Matcher_matches_whole_input: "Matcher_matches r s \<longleftrightarrow> s \<in> lang r"
  by (induction s arbitrary: r) (simp_all add: nullable_lang deriv_lang)

subsection \<open>C2: the tables returned\<close>

text \<open>
  C2. When the provider answers a connection, the connection its metadata, the
  metadata query a cursor whose rows carry names and which does not break, and the
  pattern compiles, \<^verbatim>\<open>getMySqlTables\<close> returns the table names of the scan whose whole
  name matches the pattern (the names that belong to the language of the pattern), in
  the order of the scan, whatever the url, the database, the user and the password are;
  when no name matches in full, it returns the empty list. A release that throws
  \<^verbatim>\<open>SQLException\<close> does not change the result; only an unchecked exception that
  leaves the release helper takes the place of the list, so that no other list is ever
  returned.
\<close>

theorem getMySqlTables_full_match:
  assumes "provider_getConnection e MYSQL
             \<lparr>cp_jdbcUrl = url, cp_user = Some u, cp_password = password\<rparr> = Inr (Some c)"
      and "conn_getMetaData c = Inr dmd"
      and "dmd_getTables dmd database (Some (String_toUpperCase e u)) None (Some [''TABLE''])
             = Inr r"
      and "rs_rows r = map (\<lambda>n. Inr (Some n)) names"
      and "rs_failure r = None"
      and "Pattern_compile e p = Inr rx"
  shows "fst (getMySqlTables e url database (Some p) (Some u) password) =
           (case fst (close (Some c) None (Some r)) of
              Inl x \<Rightarrow> Inl x
            | Inr v \<Rightarrow> Inr (map Some (filter (Matcher_matches rx) names)))
         \<and> (completes (Some (rs_close r)) \<and> completes (Some (conn_close c)) \<longrightarrow>
              fst (getMySqlTables e url database (Some p) (Some u) password) =
                Inr (map Some (filter (Matcher_matches rx) names)))
         \<and> filter (Matcher_matches rx) names = filter (\<lambda>n. n \<in> lang rx) names
         \<and> (completes (Some (rs_close r)) \<and> completes (Some (conn_close c))
              \<and> (\<forall>n \<in> set names. \<not> Matcher_matches rx n) \<longrightarrow>
              fst (getMySqlTables e url database (Some p) (Some u) password) = Inr [])"
proof -
  have general: "fst (getMySqlTables e url database (Some p) (Some u) password) =
           (case fst (close (Some c) None (Some r)) of
              Inl x \<Rightarrow> Inl x
            | Inr v \<Rightarrow> Inr (map Some (filter (Matcher_matches rx) names)))"
    by (rule getMySqlTables_success[OF assms])
  have matches: "fst (getMySqlTables e url database (Some p) (Some u) password) =
           Inr (map Some (filter (Matcher_matches rx) names))"
    if "completes (Some (rs_close r))" and "completes (Some (conn_close c))"
    by (rule getMySqlTables_success_completes[OF assms that])
  have whole: "filter (Matcher_matches rx) names = filter (\<lambda>n. n \<in> lang rx) names"
    by (rule filter_cong) (simp_all add: Matcher_matches_whole_input)
  have none: "filter (Matcher_matches rx) names = []"
    if "\<forall>n \<in> set names. \<not> Matcher_matches rx n"
    using that by (simp add: filter_empty_conv)
  from general matches whole none show ?thesis by simp
qed

text \<open>
  The theorem at the tables \<^verbatim>\<open>orders\<close>, \<^verbatim>\<open>customer_orders\<close>, \<^verbatim>\<open>orders_archive\<close> and
  the pattern \<^verbatim>\<open>^orders.*$\<close>, while the release of the cursor throws
  \<^verbatim>\<open>SQLException\<close>: the name \<^verbatim>\<open>customer_orders\<close>, whose last six characters match,
  is left out.
\<close>

theorem getMySqlTables_full_match_witness:
  "provider_getConnection (mysql_only orders_conn) MYSQL
     \<lparr>cp_jdbcUrl = Some ''host:3306'', cp_user = Some ''alice'', cp_password = Some ''secret''\<rparr>
     = Inr (Some orders_conn)
   \<and> conn_getMetaData orders_conn = Inr (alice_metadata (Inr orders_rs))
   \<and> dmd_getTables (alice_metadata (Inr orders_rs)) (Some ''reporting'')
        (Some (String_toUpperCase (mysql_only orders_conn) ''alice'')) None (Some [''TABLE''])
       = Inr orders_rs
   \<and> rs_rows orders_rs
       = map (\<lambda>n. Inr (Some n)) [''orders'', ''customer_orders'', ''orders_archive'']
   \<and> rs_failure orders_rs = None
   \<and> Pattern_compile (mysql_only orders_conn) ''^orders.*$''
       = Inr (Cat (literal ''orders'') (Rep AnyChr))
   \<and> completes (Some (rs_close orders_rs))
   \<and> completes (Some (conn_close orders_conn))
   \<and> Matcher_matches (Cat (literal ''orders'') (Rep AnyChr)) (drop 9 ''customer_orders'')
   \<and> fst (getMySqlTables (mysql_only orders_conn) (Some ''host:3306'') (Some ''reporting'')
        (Some ''^orders.*$'') (Some ''alice'') (Some ''secret''))
       = Inr [Some ''orders'', Some ''orders_archive'']"
proof -
  have acquired: "provider_getConnection (mysql_only orders_conn) MYSQL
     \<lparr>cp_jdbcUrl = Some ''host:3306'', cp_user = Some ''alice'', cp_password = Some ''secret''\<rparr>
     = Inr (Some orders_conn)"
    by (simp add: mysql_only_def)
  have metadata: "conn_getMetaData orders_conn = Inr (alice_metadata (Inr orders_rs))"
    by (simp add: orders_conn_def)
  have query: "dmd_getTables (alice_metadata (Inr orders_rs)) (Some ''reporting'')
        (Some (String_toUpperCase (mysql_only orders_conn) ''alice'')) None (Some [''TABLE''])
       = Inr orders_rs"
    by (simp add: alice_metadata_def mysql_only_def ascii_toUpperCase_def)
  have rows: "rs_rows orders_rs
       = map (\<lambda>n. Inr (Some n)) [''orders'', ''customer_orders'', ''orders_archive'']"
    by (simp add: orders_rs_def)
  have whole: "rs_failure orders_rs = None"
    by (simp add: orders_rs_def)
  have compiled: "Pattern_compile (mysql_only orders_conn) ''^orders.*$''
       = Inr (Cat (literal ''orders'') (Rep AnyChr))"
    by (simp add: mysql_only_def orders_pattern_def)
  have cursor: "completes (Some (rs_close orders_rs))"
    by (simp add: completes_def orders_rs_def)
  have connection: "completes (Some (conn_close orders_conn))"
    by (simp add: completes_def orders_conn_def)
  have inside: "Matcher_matches (Cat (literal ''orders'') (Rep AnyChr)) (drop 9 ''customer_orders'')"
    by simp
  have both: "completes (Some (rs_close orders_rs)) \<and> completes (Some (conn_close orders_conn))"
    using cursor connection by blast
  note main = getMySqlTables_full_match[OF acquired metadata query rows whole compiled]
  have "fst (getMySqlTables (mysql_only orders_conn) (Some ''host:3306'') (Some ''reporting'')
        (Some ''^orders.*$'') (Some ''alice'') (Some ''secret''))
       = Inr (map Some (filter (Matcher_matches (Cat (literal ''orders'') (Rep AnyChr)))
                [''orders'', ''customer_orders'', ''orders_archive'']))"
    using mp[OF conjunct1[OF conjunct2[OF main]] both] .
  then have result: "fst (getMySqlTables (mysql_only orders_conn) (Some ''host:3306'')
        (Some ''reporting'') (Some ''^orders.*$'') (Some ''alice'') (Some ''secret''))
       = Inr [Some ''orders'', Some ''orders_archive'']"
    by simp
  from acquired metadata query rows whole compiled cursor connection inside result
  show ?thesis by blast
qed

subsection \<open>C5: the metadata query\<close>




subsection \<open>C10: always MYSQL, and no filter on the server\<close>

lemma getMySqlTables_connection_requests:
  "connection_requests (snd (getMySqlTables e url database tablePattern user password)) =
     [(MYSQL, \<lparr>cp_jdbcUrl = url, cp_user = user, cp_password = password\<rparr>)]"
proof (cases "provider_getConnection e MYSQL
             \<lparr>cp_jdbcUrl = url, cp_user = user, cp_password = password\<rparr>")
  case (Inl x)
  then show ?thesis by (simp add: getMySqlTables_def)
next
  case (Inr conn)
  then show ?thesis
    using getMySqlTables_acquired[OF Inr, where database = database
        and tablePattern = tablePattern]
    by (simp add: connection_requests_append close_quiet try_block_connection_requests)
qed

lemma getMySqlTables_first_event:
  "hd (snd (getMySqlTables e url database tablePattern user password)) =
     Call_getConnection MYSQL \<lparr>cp_jdbcUrl = url, cp_user = user, cp_password = password\<rparr>"
  by (simp add: getMySqlTables_def Let_def case_prod_beta split: sum.splits)

text \<open>
  C10. Whatever the url and the other arguments are, a run asks the provider exactly
  once, first of all, and for the kind \<^verbatim>\<open>MYSQL\<close>, with the url, user and password as
  given; every metadata query it issues has \<^verbatim>\<open>null\<close> as table name pattern; the
  queries issued do not depend on the table pattern; and the pattern is applied to the
  rows that come back: with the answers of C2, the result is the names of the cursor
  filtered by the whole-name match (unless an unchecked exception leaves the release
  helper and takes its place).
\<close>

theorem getMySqlTables_mysql_unfiltered:
  "connection_requests (snd (getMySqlTables e url database tablePattern user password)) =
     [(MYSQL, \<lparr>cp_jdbcUrl = url, cp_user = user, cp_password = password\<rparr>)]
   \<and> hd (snd (getMySqlTables e url database tablePattern user password)) =
       Call_getConnection MYSQL \<lparr>cp_jdbcUrl = url, cp_user = user, cp_password = password\<rparr>
   \<and> (\<forall>q \<in> set (queries (snd (getMySqlTables e url database tablePattern user password))).
         fst (snd (snd q)) = None)
   \<and> queries (snd (getMySqlTables e url database tablePattern user password)) =
       queries (snd (getMySqlTables e url database tablePattern' user password))
   \<and> (provider_getConnection e MYSQL
         \<lparr>cp_jdbcUrl = url, cp_user = user, cp_password = password\<rparr> = Inr (Some c)
       \<and> conn_getMetaData c = Inr dmd
       \<and> user = Some u
       \<and> dmd_getTables dmd database (Some (String_toUpperCase e u)) None (Some [''TABLE''])
           = Inr r
       \<and> rs_rows r = map (\<lambda>n. Inr (Some n)) names
       \<and> rs_failure r = None
       \<and> tablePattern = Some p
       \<and> Pattern_compile e p = Inr rx \<longrightarrow>
       fst (getMySqlTables e url database tablePattern user password) =
         (case fst (close (Some c) None (Some r)) of
            Inl x \<Rightarrow> Inl x
          | Inr v \<Rightarrow> Inr (map Some (filter (Matcher_matches rx) names))))
   \<and> (provider_getConnection e MYSQL
         \<lparr>cp_jdbcUrl = url, cp_user = user, cp_password = password\<rparr> = Inr (Some c)
       \<and> conn_getMetaData c = Inr dmd
       \<and> user = Some u
       \<and> dmd_getTables dmd database (Some (String_toUpperCase e u)) None (Some [''TABLE''])
           = Inr r
       \<and> rs_rows r = map (\<lambda>n. Inr (Some n)) names
       \<and> rs_failure r = None
       \<and> tablePattern = Some p
       \<and> Pattern_compile e p = Inr rx
       \<and> completes (Some (rs_close r))
       \<and> completes (Some (conn_close c)) \<longrightarrow>
       fst (getMySqlTables e url database tablePattern user password) =
         Inr (map Some (filter (Matcher_matches rx) names)))"
proof -
  have kind: "connection_requests (snd (getMySqlTables e url database tablePattern user password)) =
     [(MYSQL, \<lparr>cp_jdbcUrl = url, cp_user = user, cp_password = password\<rparr>)]"
    by (rule getMySqlTables_connection_requests)
  have first: "hd (snd (getMySqlTables e url database tablePattern user password)) =
       Call_getConnection MYSQL \<lparr>cp_jdbcUrl = url, cp_user = user, cp_password = password\<rparr>"
    by (rule getMySqlTables_first_event)
  have unfiltered:
    "\<forall>q \<in> set (queries (snd (getMySqlTables e url database tablePattern user password))).
         fst (snd (snd q)) = None"
    by (auto simp: getMySqlTables_queries try_block_queries split: sum.splits option.splits)
  have same_query: "queries (snd (getMySqlTables e url database tablePattern user password)) =
       queries (snd (getMySqlTables e url database tablePattern' user password))"
    by (simp add: getMySqlTables_queries try_block_queries split: sum.splits)
  have client_side: "provider_getConnection e MYSQL
         \<lparr>cp_jdbcUrl = url, cp_user = user, cp_password = password\<rparr> = Inr (Some c)
       \<and> conn_getMetaData c = Inr dmd
       \<and> user = Some u
       \<and> dmd_getTables dmd database (Some (String_toUpperCase e u)) None (Some [''TABLE''])
           = Inr r
       \<and> rs_rows r = map (\<lambda>n. Inr (Some n)) names
       \<and> rs_failure r = None
       \<and> tablePattern = Some p
       \<and> Pattern_compile e p = Inr rx \<longrightarrow>
       fst (getMySqlTables e url database tablePattern user password) =
         (case fst (close (Some c) None (Some r)) of
            Inl x \<Rightarrow> Inl x
          | Inr v \<Rightarrow> Inr (map Some (filter (Matcher_matches rx) names)))"
    by (auto intro!: getMySqlTables_success)
  have client_side_completes: "provider_getConnection e MYSQL
         \<lparr>cp_jdbcUrl = url, cp_user = user, cp_password = password\<rparr> = Inr (Some c)
       \<and> conn_getMetaData c = Inr dmd
       \<and> user = Some u
       \<and> dmd_getTables dmd database (Some (String_toUpperCase e u)) None (Some [''TABLE''])
           = Inr r
       \<and> rs_rows r = map (\<lambda>n. Inr (Some n)) names
       \<and> rs_failure r = None
       \<and> tablePattern = Some p
       \<and> Pattern_compile e p = Inr rx
       \<and> completes (Some (rs_close r))
       \<and> completes (Some (conn_close c)) \<longrightarrow>
       fst (getMySqlTables e url database tablePattern user password) =
         Inr (map Some (filter (Matcher_matches rx) names))"
    by (auto intro!: getMySqlTables_success_completes)
  from kind first unfiltered same_query client_side client_side_completes show ?thesis
    by - (intro conjI; assumption)
qed

text \<open>
  The theorem at a PostgreSQL url and the pattern \<^verbatim>\<open>orders\<close>: the provider is asked
  for \<^verbatim>\<open>MYSQL\<close>, the query names no table, and of the three rows one is kept.
\<close>

theorem getMySqlTables_mysql_unfiltered_witness:
  "connection_requests (snd (getMySqlTables (mysql_only orders_conn)
        (Some ''jdbc:postgresql://host:5432/reporting'') (Some ''reporting'')
        (Some ''orders'') (Some ''alice'') (Some ''secret'')))
     = [(MYSQL, \<lparr>cp_jdbcUrl = Some ''jdbc:postgresql://host:5432/reporting'',
                 cp_user = Some ''alice'', cp_password = Some ''secret''\<rparr>)]
   \<and> queries (snd (getMySqlTables (mysql_only orders_conn)
        (Some ''jdbc:postgresql://host:5432/reporting'') (Some ''reporting'')
        (Some ''orders'') (Some ''alice'') (Some ''secret'')))
     = [(Some ''reporting'', Some ''ALICE'', None, Some [''TABLE''])]
   \<and> rs_rows orders_rs
       = map (\<lambda>n. Inr (Some n)) [''orders'', ''customer_orders'', ''orders_archive'']
   \<and> fst (getMySqlTables (mysql_only orders_conn)
        (Some ''jdbc:postgresql://host:5432/reporting'') (Some ''reporting'')
        (Some ''orders'') (Some ''alice'') (Some ''secret''))
     = Inr [Some ''orders'']"
proof -
  note main = getMySqlTables_mysql_unfiltered[of "mysql_only orders_conn"
      "Some ''jdbc:postgresql://host:5432/reporting''" "Some ''reporting''" "Some ''orders''"
      "Some ''alice''" "Some ''secret''" "Some ''orders''" orders_conn
      "alice_metadata (Inr orders_rs)" "''alice''" orders_rs
      "[''orders'', ''customer_orders'', ''orders_archive'']" "''orders''" "literal ''orders''"]
  have acquired: "provider_getConnection (mysql_only orders_conn) MYSQL
     \<lparr>cp_jdbcUrl = Some ''jdbc:postgresql://host:5432/reporting'', cp_user = Some ''alice'',
      cp_password = Some ''secret''\<rparr>
     = Inr (Some orders_conn)"
    by (simp add: mysql_only_def)
  have metadata: "conn_getMetaData orders_conn = Inr (alice_metadata (Inr orders_rs))"
    by (simp add: orders_conn_def)
  have upper: "String_toUpperCase (mysql_only orders_conn) ''alice'' = ''ALICE''"
    by (simp add: mysql_only_def ascii_toUpperCase_def)
  have query: "dmd_getTables (alice_metadata (Inr orders_rs)) (Some ''reporting'')
        (Some (String_toUpperCase (mysql_only orders_conn) ''alice'')) None (Some [''TABLE''])
       = Inr orders_rs"
    by (simp add: alice_metadata_def upper)
  have whole: "rs_failure orders_rs = None"
    by (simp add: orders_rs_def)
  have compiled: "Pattern_compile (mysql_only orders_conn) ''orders'' = Inr (literal ''orders'')"
    by (simp add: mysql_only_def orders_pattern_def)
  have rows: "rs_rows orders_rs
       = map (\<lambda>n. Inr (Some n)) [''orders'', ''customer_orders'', ''orders_archive'']"
    by (simp add: orders_rs_def)
  have cursor: "completes (Some (rs_close orders_rs))"
    by (simp add: completes_def orders_rs_def)
  have connection: "completes (Some (conn_close orders_conn))"
    by (simp add: completes_def orders_conn_def)
  have kind: "connection_requests (snd (getMySqlTables (mysql_only orders_conn)
        (Some ''jdbc:postgresql://host:5432/reporting'') (Some ''reporting'')
        (Some ''orders'') (Some ''alice'') (Some ''secret'')))
     = [(MYSQL, \<lparr>cp_jdbcUrl = Some ''jdbc:postgresql://host:5432/reporting'',
                 cp_user = Some ''alice'', cp_password = Some ''secret''\<rparr>)]"
    using conjunct1[OF main] .
  have asked: "queries (snd (getMySqlTables (mysql_only orders_conn)
        (Some ''jdbc:postgresql://host:5432/reporting'') (Some ''reporting'')
        (Some ''orders'') (Some ''alice'') (Some ''secret'')))
     = [(Some ''reporting'', Some ''ALICE'', None, Some [''TABLE''])]"
    using acquired metadata upper by (simp add: getMySqlTables_queries try_block_queries)
  have "fst (getMySqlTables (mysql_only orders_conn)
        (Some ''jdbc:postgresql://host:5432/reporting'') (Some ''reporting'')
        (Some ''orders'') (Some ''alice'') (Some ''secret''))
     = Inr (map Some (filter (Matcher_matches (literal ''orders''))
              [''orders'', ''customer_orders'', ''orders_archive'']))"
    using main acquired metadata query rows whole compiled cursor connection by blast
  then have result: "fst (getMySqlTables (mysql_only orders_conn)
        (Some ''jdbc:postgresql://host:5432/reporting'') (Some ''reporting'')
        (Some ''orders'') (Some ''alice'') (Some ''secret''))
     = Inr [Some ''orders'']"
    by simp
  from kind asked rows result show ?thesis by blast
qed

subsection \<open>C3: the dispatch\<close>

lemma getDatasourceProcessor_state: "snd (getDatasourceProcessor s dbType) = s"
  by (cases "(s, dbType)" rule: getDatasourceProcessor.cases) simp_all

lemma getDatasourceProcessor_initialised:
  "d \<in> supported \<Longrightarrow>
     \<exists>r. getDatasourceProcessor (clinit h0) (Some d) = (Inr r, clinit h0)
         \<and> length h0 \<le> r \<and> r < length (heap (clinit h0))
         \<and> Some (heap (clinit h0) ! r) = processor_class_of d"
  by (cases d) (simp_all add: supported_def clinit_def new_object_def nth_append)

lemma getDatasourceProcessor_unsupported:
  "d \<notin> supported \<Longrightarrow>
     getDatasourceProcessor s (Some d) =
       (Inl (IllegalArgumentException (''datasource type illegal:'' @ DbType_name d)), s)"
  by (cases d) (simp_all add: supported_def)

lemma getDatasourceProcessor_inj:
  "d \<in> supported \<Longrightarrow> d' \<in> supported \<Longrightarrow>
     fst (getDatasourceProcessor (clinit h0) (Some d)) =
       fst (getDatasourceProcessor (clinit h0) (Some d')) \<Longrightarrow> d = d'"
  by (cases d; cases d') (simp_all add: supported_def clinit_def new_object_def)

text \<open>
  C3, as the code has it. Once the class is initialised, for every kind in the supported
  set \<^verbatim>\<open>getDatasourceProcessor\<close> returns a reference to an object, created by the
  static initialiser, of the processor class of that kind. A call leaves the state of
  the class as it found it, so that a call answers the same after any other call: the
  same instance on every call with that kind. Two supported kinds never share their
  instance. For every kind outside the set the call throws
  \<^verbatim>\<open>IllegalArgumentException\<close> with the message \<^verbatim>\<open>datasource type illegal:\<close> followed
  by the kind; for \<^verbatim>\<open>null\<close> it throws \<^verbatim>\<open>NullPointerException\<close>.
\<close>

theorem getDatasourceProcessor_dispatch:
  "(d \<in> supported \<longrightarrow>
      (\<exists>r. getDatasourceProcessor (clinit h0) (Some d) = (Inr r, clinit h0)
           \<and> length h0 \<le> r \<and> r < length (heap (clinit h0))
           \<and> Some (heap (clinit h0) ! r) = processor_class_of d))
   \<and> getDatasourceProcessor (snd (getDatasourceProcessor s dbType')) dbType =
       getDatasourceProcessor s dbType
   \<and> snd (getDatasourceProcessor s dbType) = s
   \<and> (d \<in> supported \<and> d' \<in> supported
        \<and> fst (getDatasourceProcessor (clinit h0) (Some d)) =
            fst (getDatasourceProcessor (clinit h0) (Some d')) \<longrightarrow> d = d')
   \<and> (d \<notin> supported \<longrightarrow>
        getDatasourceProcessor s (Some d) =
          (Inl (IllegalArgumentException (''datasource type illegal:'' @ DbType_name d)), s))
   \<and> getDatasourceProcessor s None = (Inl NullPointerException, s)"
proof -
  have instance_of_kind: "d \<in> supported \<longrightarrow>
      (\<exists>r. getDatasourceProcessor (clinit h0) (Some d) = (Inr r, clinit h0)
           \<and> length h0 \<le> r \<and> r < length (heap (clinit h0))
           \<and> Some (heap (clinit h0) ! r) = processor_class_of d)"
    using getDatasourceProcessor_initialised[of d h0] by blast
  have every_call: "getDatasourceProcessor (snd (getDatasourceProcessor s dbType')) dbType =
       getDatasourceProcessor s dbType"
    by (simp add: getDatasourceProcessor_state)
  have unchanged: "snd (getDatasourceProcessor s dbType) = s"
    by (rule getDatasourceProcessor_state)
  have one_each: "d \<in> supported \<and> d' \<in> supported
        \<and> fst (getDatasourceProcessor (clinit h0) (Some d)) =
            fst (getDatasourceProcessor (clinit h0) (Some d')) \<longrightarrow> d = d'"
    using getDatasourceProcessor_inj[of d d' h0] by blast
  have outside: "d \<notin> supported \<longrightarrow>
        getDatasourceProcessor s (Some d) =
          (Inl (IllegalArgumentException (''datasource type illegal:'' @ DbType_name d)), s)"
    using getDatasourceProcessor_unsupported[of d s] by blast
  have null_kind: "getDatasourceProcessor s None = (Inl NullPointerException, s)"
    by simp
  from instance_of_kind every_call unchanged one_each outside null_kind show ?thesis
    by - (intro conjI; assumption)
qed

text \<open>
  The theorem on an empty heap, at \<^verbatim>\<open>HIVE\<close> (the third object the initialiser
  creates) and at a kind the switch does not name.
\<close>

theorem getDatasourceProcessor_dispatch_witness:
  "HIVE \<in> supported
   \<and> getDatasourceProcessor (clinit []) (Some HIVE) = (Inr 2, clinit [])
   \<and> heap (clinit []) ! 2 = HiveDatasourceProcessor
   \<and> OTHER ''H2'' \<notin> supported
   \<and> getDatasourceProcessor (clinit []) (Some (OTHER ''H2'')) =
       (Inl (IllegalArgumentException ''datasource type illegal:H2''), clinit [])"
proof -
  note main = getDatasourceProcessor_dispatch[of HIVE "[]" "clinit []" None "Some HIVE" HIVE]
  note other = getDatasourceProcessor_dispatch[of "OTHER ''H2''" "[]" "clinit []" None None HIVE]
  have inside: "HIVE \<in> supported" by (simp add: supported_def)
  have outside: "OTHER ''H2'' \<notin> supported" by (simp add: supported_def)
  from inside main
  obtain r where r: "getDatasourceProcessor (clinit []) (Some HIVE) = (Inr r, clinit [])"
      "Some (heap (clinit []) ! r) = processor_class_of HIVE"
    by blast
  have "hiveProcessor (clinit []) = 2"
    by (simp add: clinit_def new_object_def)
  with r have hive: "getDatasourceProcessor (clinit []) (Some HIVE) = (Inr 2, clinit [])"
    and object: "heap (clinit []) ! 2 = HiveDatasourceProcessor"
    by simp_all
  from outside other
  have "getDatasourceProcessor (clinit []) (Some (OTHER ''H2'')) =
       (Inl (IllegalArgumentException (''datasource type illegal:'' @ DbType_name (OTHER ''H2''))),
        clinit [])"
    by blast
  then have h2: "getDatasourceProcessor (clinit []) (Some (OTHER ''H2'')) =
       (Inl (IllegalArgumentException ''datasource type illegal:H2''), clinit [])"
    by simp
  from inside hive object outside h2 show ?thesis by blast
qed

text \<open>
  C3 as stated fails: \<^verbatim>\<open>null\<close> is a value outside the supported set, and for it the
  switch throws \<^verbatim>\<open>NullPointerException\<close>, not the \<^verbatim>\<open>IllegalArgumentException\<close> of its
  default branch.
\<close>

theorem null_kind_raises_NullPointerException:
  "fst (getDatasourceProcessor (clinit []) None) = Inl NullPointerException
   \<and> NullPointerException \<noteq> IllegalArgumentException ''datasource type illegal:null''"
  by simp

subsection \<open>C6: the unique id\<close>

lemma getDatasourceUniqueId_supported:
  "d \<in> supported \<Longrightarrow>
     fst (getDatasourceUniqueId s digest cd (Some d)) =
       Inr (digest (DbType_name d @ cd_url cd @ cd_user cd))"
  by (cases d)
     (simp_all add: supported_def getDatasourceUniqueId_def processor_getDatasourceUniqueId_def)

lemma getDatasourceUniqueId_same:
  "cd_url a = cd_url b \<Longrightarrow> cd_user a = cd_user b \<Longrightarrow>
     getDatasourceUniqueId s digest a dbType = getDatasourceUniqueId s digest b dbType"
  by (simp add: getDatasourceUniqueId_def processor_getDatasourceUniqueId_def
        split: prod.splits sum.splits option.splits)

text \<open>
  C6. The unique id is a function of the kind, the normalized URL and the user alone:
  two descriptors that agree on URL and user get the same id (or the same failure) for
  every kind, whatever their passwords and properties are, and replacing the password
  of a descriptor never changes its id: the password is not embedded. For a supported
  kind the id is the digest of kind, URL and user and of nothing else; as far as the
  digest separates texts, changing the user while the URL stays, or the URL while the
  user stays, changes the id.
\<close>

theorem getDatasourceUniqueId_password_free:
  "(cd_url a = cd_url b \<and> cd_user a = cd_user b \<longrightarrow>
      getDatasourceUniqueId s digest a dbType = getDatasourceUniqueId s digest b dbType)
   \<and> getDatasourceUniqueId s digest (a\<lparr>cd_password := pw\<rparr>) dbType =
       getDatasourceUniqueId s digest a dbType
   \<and> (d \<in> supported \<longrightarrow>
        fst (getDatasourceUniqueId s digest a (Some d)) =
          Inr (digest (DbType_name d @ cd_url a @ cd_user a)))
   \<and> (inj digest \<and> d \<in> supported \<and> cd_url a = cd_url b \<and> cd_user a \<noteq> cd_user b \<longrightarrow>
        fst (getDatasourceUniqueId s digest a (Some d)) \<noteq>
          fst (getDatasourceUniqueId s digest b (Some d)))
   \<and> (inj digest \<and> d \<in> supported \<and> cd_user a = cd_user b \<and> cd_url a \<noteq> cd_url b \<longrightarrow>
        fst (getDatasourceUniqueId s digest a (Some d)) \<noteq>
          fst (getDatasourceUniqueId s digest b (Some d)))"
proof -
  have same: "cd_url a = cd_url b \<and> cd_user a = cd_user b \<longrightarrow>
      getDatasourceUniqueId s digest a dbType = getDatasourceUniqueId s digest b dbType"
    using getDatasourceUniqueId_same[of a b s digest dbType] by blast
  have password: "getDatasourceUniqueId s digest (a\<lparr>cd_password := pw\<rparr>) dbType =
       getDatasourceUniqueId s digest a dbType"
    by (rule getDatasourceUniqueId_same) simp_all
  have content: "d \<in> supported \<longrightarrow>
        fst (getDatasourceUniqueId s digest a (Some d)) =
          Inr (digest (DbType_name d @ cd_url a @ cd_user a))"
    using getDatasourceUniqueId_supported[of d s digest a] by blast
  have user: "inj digest \<and> d \<in> supported \<and> cd_url a = cd_url b \<and> cd_user a \<noteq> cd_user b \<longrightarrow>
        fst (getDatasourceUniqueId s digest a (Some d)) \<noteq>
          fst (getDatasourceUniqueId s digest b (Some d))"
    by (auto simp: getDatasourceUniqueId_supported dest: injD)
  have url: "inj digest \<and> d \<in> supported \<and> cd_user a = cd_user b \<and> cd_url a \<noteq> cd_url b \<longrightarrow>
        fst (getDatasourceUniqueId s digest a (Some d)) \<noteq>
          fst (getDatasourceUniqueId s digest b (Some d))"
    by (auto simp: getDatasourceUniqueId_supported dest: injD)
  from same password content user url show ?thesis
    by - (intro conjI; assumption)
qed

text \<open>
  The theorem at a MySQL descriptor and the plain concatenation: another password gives
  the same id, another user or another URL a different one.
\<close>

theorem getDatasourceUniqueId_password_free_witness:
  "inj (\<lambda>t :: string. t)
   \<and> MYSQL \<in> supported
   \<and> fst (getDatasourceUniqueId (clinit []) (\<lambda>t. t) alice_descriptor (Some MYSQL)) =
       Inr ''MYSQLjdbc:mysql://host:3306/reportingalice''
   \<and> getDatasourceUniqueId (clinit []) (\<lambda>t. t) (alice_descriptor\<lparr>cd_password := ''hunter2''\<rparr>)
        (Some MYSQL) =
       getDatasourceUniqueId (clinit []) (\<lambda>t. t) alice_descriptor (Some MYSQL)
   \<and> fst (getDatasourceUniqueId (clinit []) (\<lambda>t. t) alice_descriptor (Some MYSQL)) \<noteq>
       fst (getDatasourceUniqueId (clinit []) (\<lambda>t. t) (alice_descriptor\<lparr>cd_user := ''bob''\<rparr>)
         (Some MYSQL))
   \<and> fst (getDatasourceUniqueId (clinit []) (\<lambda>t. t) alice_descriptor (Some MYSQL)) \<noteq>
       fst (getDatasourceUniqueId (clinit []) (\<lambda>t. t)
         (alice_descriptor\<lparr>cd_url := ''jdbc:mysql://host:3306/sales''\<rparr>) (Some MYSQL))"
proof -
  have plain: "inj (\<lambda>t :: string. t)" by simp
  have mysql: "MYSQL \<in> supported" by (simp add: supported_def)
  note main = getDatasourceUniqueId_password_free[where s = "clinit []" and digest = "\<lambda>t. t"
      and a = alice_descriptor and d = MYSQL and dbType = "Some MYSQL"]
  have key: "fst (getDatasourceUniqueId (clinit []) (\<lambda>t. t) alice_descriptor (Some MYSQL)) =
       Inr ''MYSQLjdbc:mysql://host:3306/reportingalice''"
    using mp[OF conjunct1[OF conjunct2[OF conjunct2[OF main[of alice_descriptor "''x''"]]]] mysql]
    by (simp add: alice_descriptor_def)
  have password: "getDatasourceUniqueId (clinit []) (\<lambda>t. t)
        (alice_descriptor\<lparr>cd_password := ''hunter2''\<rparr>) (Some MYSQL) =
       getDatasourceUniqueId (clinit []) (\<lambda>t. t) alice_descriptor (Some MYSQL)"
    using conjunct1[OF conjunct2[OF main[of alice_descriptor "''hunter2''"]]] .
  have user: "fst (getDatasourceUniqueId (clinit []) (\<lambda>t. t) alice_descriptor (Some MYSQL)) \<noteq>
       fst (getDatasourceUniqueId (clinit []) (\<lambda>t. t) (alice_descriptor\<lparr>cd_user := ''bob''\<rparr>)
         (Some MYSQL))"
  proof -
    have changed: "inj (\<lambda>t :: string. t) \<and> MYSQL \<in> supported
        \<and> cd_url alice_descriptor = cd_url (alice_descriptor\<lparr>cd_user := ''bob''\<rparr>)
        \<and> cd_user alice_descriptor \<noteq> cd_user (alice_descriptor\<lparr>cd_user := ''bob''\<rparr>)"
      using mysql by (simp add: alice_descriptor_def)
    show ?thesis
      using mp[OF conjunct1[OF conjunct2[OF conjunct2[OF conjunct2[OF
            main[of "alice_descriptor\<lparr>cd_user := ''bob''\<rparr>" "''x''"]]]]] changed] .
  qed
  have url: "fst (getDatasourceUniqueId (clinit []) (\<lambda>t. t) alice_descriptor (Some MYSQL)) \<noteq>
       fst (getDatasourceUniqueId (clinit []) (\<lambda>t. t)
         (alice_descriptor\<lparr>cd_url := ''jdbc:mysql://host:3306/sales''\<rparr>) (Some MYSQL))"
  proof -
    have changed: "inj (\<lambda>t :: string. t) \<and> MYSQL \<in> supported
        \<and> cd_user alice_descriptor =
            cd_user (alice_descriptor\<lparr>cd_url := ''jdbc:mysql://host:3306/sales''\<rparr>)
        \<and> cd_url alice_descriptor \<noteq>
            cd_url (alice_descriptor\<lparr>cd_url := ''jdbc:mysql://host:3306/sales''\<rparr>)"
      using mysql by (simp add: alice_descriptor_def)
    show ?thesis
      using mp[OF conjunct2[OF conjunct2[OF conjunct2[OF conjunct2[OF
            main[of "alice_descriptor\<lparr>cd_url := ''jdbc:mysql://host:3306/sales''\<rparr>"
              "''x''"]]]]] changed] .
  qed
  from plain mysql key password user url show ?thesis by blast
qed

end
